theory Spec2Isabelle
  imports Main
begin

section \<open>Python values and exceptions\<close>

text \<open>
  The connector of \<^verbatim>\<open>src/botofication/athena/connector.py\<close> handles dynamically typed
  values: constructor arguments, and the decoded responses of the Athena client. They are
  modelled by the values a decoded service response is made of. A dictionary is an
  association list with string keys, read with \<open>map_of\<close>.
\<close>

datatype pyval =
    PNone
  | PBool bool
  | PInt int
  | PStr string
  | PList "pyval list"
  | PDict "(string \<times> pyval) list"

text \<open>
  Exceptions are values. The first six are the classes the source imports from botocore and
  that the client raises, each with its message. \<open>TypeError\<close> and \<open>ValueError\<close> carry the
  message the source gives them. \<open>KeyError\<close> (with the missing key), \<open>PyTypeError\<close> (a value
  that is subscripted or iterated and does not support it) and \<open>AttributeError\<close> (with the
  missing attribute) are raised by the interpreter. \<open>Exception msg e\<close> is
  \<^verbatim>\<open>Exception(f"{msg}{e}")\<close> raised while \<open>e\<close> is being handled: \<open>msg\<close> is the
  literal part of the message and \<open>e\<close> the exception it was built from.
\<close>

datatype exn =
    ClientError string
  | ParamValidationError string
  | EndpointConnectionError string
  | NoCredentialsError string
  | PartialCredentialsError string
  | NoRegionError string
  | TypeError string
  | ValueError string
  | KeyError string
  | PyTypeError
  | AttributeError string
  | Exception string exn

text \<open>\<^verbatim>\<open>isinstance(v, str)\<close> and \<^verbatim>\<open>isinstance(v, dict)\<close>.\<close>

fun is_str :: "pyval \<Rightarrow> bool" where
  "is_str (PStr s) = True"
| "is_str v = False"

fun is_dict :: "pyval \<Rightarrow> bool" where
  "is_dict (PDict kvs) = True"
| "is_dict v = False"

text \<open>The truth value of a value, as \<^verbatim>\<open>if v\<close>, \<^verbatim>\<open>not v\<close>, \<^verbatim>\<open>and\<close> and \<^verbatim>\<open>or\<close> test it.\<close>

fun truthy :: "pyval \<Rightarrow> bool" where
  "truthy PNone = False"
| "truthy (PBool b) = b"
| "truthy (PInt i) = (i \<noteq> 0)"
| "truthy (PStr s) = (s \<noteq> [])"
| "truthy (PList vs) = (vs \<noteq> [])"
| "truthy (PDict kvs) = (kvs \<noteq> [])"

text \<open>\<^verbatim>\<open>v[key]\<close> with a string key: only a dictionary can be read that way.\<close>

fun subscript :: "pyval \<Rightarrow> string \<Rightarrow> exn + pyval" where
  "subscript (PDict kvs) key =
     (case map_of kvs key of None \<Rightarrow> Inl (KeyError key) | Some v \<Rightarrow> Inr v)"
| "subscript v key = Inl PyTypeError"

text \<open>
  \<^verbatim>\<open>v.get(key, dflt)\<close>: of the values modelled, only a dictionary has the method.
\<close>

fun py_get :: "pyval \<Rightarrow> string \<Rightarrow> pyval \<Rightarrow> exn + pyval" where
  "py_get (PDict kvs) key dflt =
     Inr (case map_of kvs key of None \<Rightarrow> dflt | Some v \<Rightarrow> v)"
| "py_get v key dflt = Inl (AttributeError ''get'')"

text \<open>
  The elements \<^verbatim>\<open>for x in v\<close> runs through: the elements of a list, the keys of a
  dictionary, the characters of a string; the other values are not iterable.
\<close>

fun py_iter :: "pyval \<Rightarrow> exn + pyval list" where
  "py_iter (PList vs) = Inr vs"
| "py_iter (PDict kvs) = Inr (map (\<lambda>kv. PStr (fst kv)) kvs)"
| "py_iter (PStr s) = Inr (map (\<lambda>c. PStr [c]) s)"
| "py_iter v = Inl PyTypeError"

section \<open>Flattening: \<open>process_data\<close>\<close>

text \<open>
  The comprehension
  \<^verbatim>\<open>[each_dict.get("VarCharValue", None) for each_dict in dict_data]\<close>:
  the first element that raises ends it.
\<close>

fun values_loop :: "pyval list \<Rightarrow> exn + pyval list" where
  "values_loop [] = Inr []"
| "values_loop (each_dict # rest) =
     (case py_get each_dict ''VarCharValue'' PNone of
        Inl e \<Rightarrow> Inl e
      | Inr v \<Rightarrow> (case values_loop rest of Inl e \<Rightarrow> Inl e | Inr vs \<Rightarrow> Inr (v # vs)))"

definition values_of :: "pyval \<Rightarrow> exn + pyval list" where
  "values_of dict_data =
     (case py_iter dict_data of Inl e \<Rightarrow> Inl e | Inr cells \<Rightarrow> values_loop cells)"

text \<open>
  The loop \<^verbatim>\<open>for d in data\<close> of \<open>process_data\<close>, with \<open>new_data\<close> as accumulator.
\<close>

fun process_loop :: "pyval list \<Rightarrow> pyval list list \<Rightarrow> exn + pyval list list" where
  "process_loop [] new_data = Inr new_data"
| "process_loop (d # ds) new_data =
     (if is_dict d then
        (case py_get d ''Data'' (PList []) of
           Inl e \<Rightarrow> Inl e
         | Inr dict_data \<Rightarrow>
             (case values_of dict_data of
                Inl e \<Rightarrow> Inl e
              | Inr values \<Rightarrow>
                  if length values > 1 then process_loop ds (new_data @ [values])
                  else process_loop ds new_data))
      else process_loop ds new_data)"

definition process_data :: "pyval \<Rightarrow> exn + pyval list list" where
  "process_data data =
     (case py_iter data of Inl e \<Rightarrow> Inl e | Inr ds \<Rightarrow> process_loop ds [])"

text \<open>
  The shape of a result row as the service sends it: a dictionary whose \<open>Data\<close> entry lists
  one dictionary per cell, with the cell's string under \<open>VarCharValue\<close> and no such entry
  for a null cell. \<open>raw_row\<close> builds that shape from a sequence of nullable strings, and
  \<open>cell\<close> is the nullable string as a value of the normalized table.
\<close>

definition raw_cell :: "string option \<Rightarrow> pyval" where
  "raw_cell c = (case c of None \<Rightarrow> PDict [] | Some s \<Rightarrow> PDict [(''VarCharValue'', PStr s)])"

definition raw_row :: "string option list \<Rightarrow> pyval" where
  "raw_row cs = PDict [(''Data'', PList (map raw_cell cs))]"

definition cell :: "string option \<Rightarrow> pyval" where
  "cell c = (case c of None \<Rightarrow> PNone | Some s \<Rightarrow> PStr s)"

section \<open>The connector's configuration\<close>

text \<open>
  The private attributes of an \<open>AthenaConnector\<close>. \<open>client_attr\<close> is the Athena client
  that \<^verbatim>\<open>boto3.client\<close> returned.
\<close>

record 'g connector =
  region_attr :: pyval
  database_attr :: pyval
  workgroup_attr :: pyval
  data_catalog_attr :: pyval
  output_bucket_attr :: pyval
  output_location_attr :: pyval
  aws_access_key_id_attr :: pyval
  aws_secret_access_key_attr :: pyval
  client_attr :: 'g

text \<open>\<^verbatim>\<open>needle in haystack\<close> on two strings: \<open>needle\<close> occurs in \<open>haystack\<close>.\<close>

fun str_in :: "string \<Rightarrow> string \<Rightarrow> bool" where
  "str_in needle [] = (needle = [])"
| "str_in needle (c # cs) = (take (length needle) (c # cs) = needle \<or> str_in needle cs)"

text \<open>
  \<open>__check(k, v)\<close> of \<open>__get_args\<close>: \<open>k\<close> is the argument's value and \<open>v\<close> its name.
\<close>

definition check :: "pyval \<Rightarrow> string \<Rightarrow> exn + unit" where
  "check k v =
     (if (str_in ''region'' v \<or> truthy k) \<and> \<not> is_str k
      then Inl (TypeError (''`'' @ v @ ''` -> Expected String Or Bytes-Like Object''))
      else Inr ())"

text \<open>The calls of \<open>__check\<close> in sequence: the first that raises ends them.\<close>

fun checks :: "(pyval \<times> string) list \<Rightarrow> exn + unit" where
  "checks [] = Inr ()"
| "checks ((k, v) # rest) = (case check k v of Inl e \<Rightarrow> Inl e | Inr u \<Rightarrow> checks rest)"

text \<open>
  \<open>__get_args\<close>. An argument the caller leaves out has the default \<open>None\<close>, here
  \<open>PNone\<close>. The result is the dictionary the source returns.
\<close>

definition get_args ::
  "pyval \<Rightarrow> pyval \<Rightarrow> pyval \<Rightarrow> pyval \<Rightarrow> pyval \<Rightarrow> pyval \<Rightarrow> pyval \<Rightarrow> pyval
     \<Rightarrow> exn + (string \<times> pyval) list" where
  "get_args region database workgroup data_catalog output_bucket output_location
       aws_access_key_id aws_secret_access_key =
     (case checks
        [(region, ''region''),
         (database, ''database''),
         (workgroup, ''workgroup''),
         (data_catalog, ''data_catalog''),
         (output_bucket, ''output_bucket''),
         (output_location, ''output_location''),
         (aws_access_key_id, ''aws_access_key_id''),
         (aws_secret_access_key, ''aws_secret_access_key'')] of
        Inl e \<Rightarrow> Inl e
      | Inr u \<Rightarrow>
          Inr [(''region'', region),
               (''database'', database),
               (''workgroup'', workgroup),
               (''data_catalog'', data_catalog),
               (''output_bucket'', output_bucket),
               (''output_location'', output_location),
               (''aws_access_key_id'', aws_access_key_id),
               (''aws_secret_access_key'', aws_secret_access_key)])"

text \<open>\<^verbatim>\<open>self.__args.get(key)\<close> on the dictionary of \<open>__get_args\<close>.\<close>

definition args_get :: "(string \<times> pyval) list \<Rightarrow> string \<Rightarrow> pyval" where
  "args_get args key = (case map_of args key of None \<Rightarrow> PNone | Some v \<Rightarrow> v)"

text \<open>
  \<open>__init__\<close>. \<^verbatim>\<open>boto3.client\<close> is outside the repository and is the parameter
  \<open>boto3_client\<close>: it takes the region and, when both are truthy, the two credentials, and
  returns the client or raises.
\<close>

definition init ::
  "(pyval \<Rightarrow> (pyval \<times> pyval) option \<Rightarrow> exn + 'g)
     \<Rightarrow> pyval \<Rightarrow> pyval \<Rightarrow> pyval \<Rightarrow> pyval \<Rightarrow> pyval \<Rightarrow> pyval \<Rightarrow> pyval \<Rightarrow> pyval
     \<Rightarrow> exn + 'g connector" where
  "init boto3_client region database workgroup data_catalog output_bucket output_location
       aws_access_key_id aws_secret_access_key =
     (case get_args region database workgroup data_catalog output_bucket output_location
             aws_access_key_id aws_secret_access_key of
        Inl e \<Rightarrow> Inl e
      | Inr args \<Rightarrow>
          (case (if truthy (args_get args ''aws_access_key_id'')
                    \<and> truthy (args_get args ''aws_secret_access_key'')
                 then boto3_client (args_get args ''region'')
                        (Some (args_get args ''aws_access_key_id'',
                               args_get args ''aws_secret_access_key''))
                 else boto3_client (args_get args ''region'') None) of
             Inl e \<Rightarrow> Inl e
           | Inr cl \<Rightarrow>
               Inr \<lparr>region_attr = args_get args ''region'',
                    database_attr = args_get args ''database'',
                    workgroup_attr = args_get args ''workgroup'',
                    data_catalog_attr = args_get args ''data_catalog'',
                    output_bucket_attr = args_get args ''output_bucket'',
                    output_location_attr = args_get args ''output_location'',
                    aws_access_key_id_attr = args_get args ''aws_access_key_id'',
                    aws_secret_access_key_attr = args_get args ''aws_secret_access_key'',
                    client_attr = cl\<rparr>))"

text \<open>The property getters.\<close>

definition region :: "'g connector \<Rightarrow> exn + pyval" where
  "region c = Inr (region_attr c)"

definition database :: "'g connector \<Rightarrow> exn + pyval" where
  "database c =
     (if \<not> truthy (database_attr c) then Inl (ValueError ''Database Name Not Provided!'')
      else Inr (database_attr c))"

definition output_bucket :: "'g connector \<Rightarrow> exn + pyval" where
  "output_bucket c =
     (if \<not> truthy (output_bucket_attr c) then Inl (ValueError ''Output Bucket Not Provided!'')
      else Inr (output_bucket_attr c))"

definition output_location :: "'g connector \<Rightarrow> exn + pyval" where
  "output_location c =
     (if \<not> truthy (output_location_attr c)
      then Inl (ValueError ''Output Location Not Provided!'')
      else Inr (output_location_attr c))"

definition workgroup :: "'g connector \<Rightarrow> exn + pyval" where
  "workgroup c =
     (if \<not> truthy (workgroup_attr c) then Inl (ValueError ''Workgroup Not Provided!'')
      else Inr (workgroup_attr c))"

definition data_catalog :: "'g connector \<Rightarrow> exn + pyval" where
  "data_catalog c =
     (if \<not> truthy (data_catalog_attr c) then Inl (ValueError ''Data Catalog Not Provided!'')
      else Inr (data_catalog_attr c))"

text \<open>
  The property setters, \<open>v\<close> being the value assigned. A setter returns what the
  assignment raises, if anything, and the connector as the assignment leaves it.
\<close>

definition set_database :: "'g connector \<Rightarrow> pyval \<Rightarrow> (exn + unit) \<times> 'g connector" where
  "set_database c v =
     (if \<not> is_str v
      then (Inl (TypeError ''`database` -> Expected String Or Bytes-Like Object''), c)
      else (Inr (), c\<lparr>database_attr := v\<rparr>))"

definition set_output_bucket :: "'g connector \<Rightarrow> pyval \<Rightarrow> (exn + unit) \<times> 'g connector" where
  "set_output_bucket c v =
     (if \<not> is_str v
      then (Inl (TypeError ''`output_bucket` -> Expected String Or Bytes-Like Object''), c)
      else (Inr (), c\<lparr>output_bucket_attr := v\<rparr>))"

definition set_output_location :: "'g connector \<Rightarrow> pyval \<Rightarrow> (exn + unit) \<times> 'g connector" where
  "set_output_location c v =
     (if \<not> is_str v
      then (Inl (TypeError ''`output_location` -> Expected String Or Bytes-Like Object''), c)
      else (Inr (), c\<lparr>output_location_attr := v\<rparr>))"

definition set_workgroup :: "'g connector \<Rightarrow> pyval \<Rightarrow> (exn + unit) \<times> 'g connector" where
  "set_workgroup c v =
     (if \<not> is_str v
      then (Inl (TypeError ''`workgroup` -> Expected String Or Bytes-Like Object''), c)
      else (Inr (), c\<lparr>workgroup_attr := v\<rparr>))"

definition set_data_catalog :: "'g connector \<Rightarrow> pyval \<Rightarrow> (exn + unit) \<times> 'g connector" where
  "set_data_catalog c v =
     (if \<not> is_str v
      then (Inl (TypeError ''`data_catalog` -> Expected String Or Bytes-Like Object''), c)
      else (Inr (), c\<lparr>data_catalog_attr := v\<rparr>))"

section \<open>The Athena client and \<open>status_query\<close>\<close>

text \<open>
  The client is outside the repository. Its three operations that \<open>status_query\<close> calls
  are functions from the arguments to what the call returns or raises. A run calls
  \<open>get_query_execution\<close> repeatedly, and the service may answer each call differently:
  the first argument is the number of status calls made before this one.
\<close>

record gateway =
  start_query_execution :: "pyval \<Rightarrow> pyval \<Rightarrow> pyval \<Rightarrow> exn + pyval"
  get_query_execution :: "nat \<Rightarrow> pyval \<Rightarrow> exn + pyval"
  get_query_results :: "pyval \<Rightarrow> exn + pyval"

text \<open>
  What a run does to the outside, in order: the client calls with their arguments, and
  \<^verbatim>\<open>time.sleep\<close> with its number of seconds. The \<^verbatim>\<open>ic\<close> calls only print and are
  left out.
\<close>

datatype event =
    StartQueryExecution pyval pyval pyval
  | GetQueryExecution pyval
  | Sleep nat
  | GetQueryResults pyval

text \<open>\<^verbatim>\<open>query_response["QueryExecution"]["Status"]["State"]\<close>.\<close>

definition query_state :: "pyval \<Rightarrow> exn + pyval" where
  "query_state query_response =
     (case subscript query_response ''QueryExecution'' of
        Inl e \<Rightarrow> Inl e
      | Inr qe \<Rightarrow>
          (case subscript qe ''Status'' of
             Inl e \<Rightarrow> Inl e
           | Inr st \<Rightarrow> subscript st ''State''))"

text \<open>\<^verbatim>\<open>state in ["SUCCEEDED", "FAILED", "CANCELLED"]\<close>.\<close>

definition is_terminal :: "pyval \<Rightarrow> bool" where
  "is_terminal state = (state \<in> set [PStr ''SUCCEEDED'', PStr ''FAILED'', PStr ''CANCELLED''])"

text \<open>
  The loop \<^verbatim>\<open>while True\<close>. \<open>k\<close> counts the status calls made so far and \<open>tr\<close> holds
  the events so far. The loop returns the terminal state it saw, or the exception that
  ended it, with the events; it returns \<open>None\<close> when it runs forever.
\<close>

partial_function (option) poll ::
  "gateway \<Rightarrow> pyval \<Rightarrow> nat \<Rightarrow> event list \<Rightarrow> ((exn + pyval) \<times> event list) option" where
  "poll g query_execution_id k tr =
     (case get_query_execution g k query_execution_id of
        Inl e \<Rightarrow> Some (Inl e, tr @ [GetQueryExecution query_execution_id])
      | Inr query_response \<Rightarrow>
          (case query_state query_response of
             Inl e \<Rightarrow> Some (Inl e, tr @ [GetQueryExecution query_execution_id])
           | Inr state \<Rightarrow>
               if is_terminal state
               then Some (Inr state, tr @ [GetQueryExecution query_execution_id])
               else poll g query_execution_id (Suc k)
                      (tr @ [GetQueryExecution query_execution_id, Sleep 5])))"

text \<open>\<^verbatim>\<open>result_response["ResultSet"]["Rows"]\<close>.\<close>

definition result_rows :: "pyval \<Rightarrow> exn + pyval" where
  "result_rows result_response =
     (case subscript result_response ''ResultSet'' of
        Inl e \<Rightarrow> Inl e
      | Inr rs \<Rightarrow> subscript rs ''Rows'')"

text \<open>
  The arguments of \<open>start_query_execution\<close>. The f-string of the output location formats
  the two stored values with Python's \<^verbatim>\<open>str\<close>, which is the parameter \<open>str_of\<close>.
\<close>

definition query_execution_context :: "'g connector \<Rightarrow> pyval" where
  "query_execution_context c = PDict [(''Database'', database_attr c)]"

definition result_configuration :: "(pyval \<Rightarrow> string) \<Rightarrow> 'g connector \<Rightarrow> pyval" where
  "result_configuration str_of c =
     PDict [(''OutputLocation'',
             PStr (''s3://'' @ str_of (output_bucket_attr c) @ ''/''
                     @ str_of (output_location_attr c)))]"

text \<open>
  The body of the \<^verbatim>\<open>try\<close> of \<open>status_query\<close>: what it returns or raises, and the
  events of the run.
\<close>

definition status_query_try ::
  "(pyval \<Rightarrow> string) \<Rightarrow> gateway connector \<Rightarrow> pyval
     \<Rightarrow> ((exn + pyval list list) \<times> event list) option" where
  "status_query_try str_of c query =
     (let tr0 = [StartQueryExecution query (query_execution_context c)
                   (result_configuration str_of c)]
      in case start_query_execution (client_attr c) query (query_execution_context c)
                (result_configuration str_of c) of
           Inl e \<Rightarrow> Some (Inl e, tr0)
         | Inr response \<Rightarrow>
             (case subscript response ''QueryExecutionId'' of
                Inl e \<Rightarrow> Some (Inl e, tr0)
              | Inr query_execution_id \<Rightarrow>
                  (case poll (client_attr c) query_execution_id 0 tr0 of
                     None \<Rightarrow> None
                   | Some (Inl e, tr1) \<Rightarrow> Some (Inl e, tr1)
                   | Some (Inr state, tr1) \<Rightarrow>
                       (case get_query_results (client_attr c) query_execution_id of
                          Inl e \<Rightarrow> Some (Inl e, tr1 @ [GetQueryResults query_execution_id])
                        | Inr result_response \<Rightarrow>
                            (case result_rows result_response of
                               Inl e \<Rightarrow>
                                 Some (Inl e, tr1 @ [GetQueryResults query_execution_id])
                             | Inr result_data \<Rightarrow>
                                 Some (process_data result_data,
                                       tr1 @ [GetQueryResults query_execution_id]))))))"

text \<open>
  \<open>status_query\<close>: the \<^verbatim>\<open>except\<close> clause lists \<^verbatim>\<open>Exception\<close>, so it catches every
  exception of the body and raises an \<^verbatim>\<open>Exception\<close> built from it.
\<close>

definition status_query ::
  "(pyval \<Rightarrow> string) \<Rightarrow> gateway connector \<Rightarrow> pyval
     \<Rightarrow> ((exn + pyval list list) \<times> event list) option" where
  "status_query str_of c query =
     (case status_query_try str_of c query of
        None \<Rightarrow> None
      | Some (Inl e, tr) \<Rightarrow> Some (Inl (Exception ''Error While Running Query: '' e), tr)
      | Some (Inr output, tr) \<Rightarrow> Some (Inr output, tr))"

section \<open>Reading a run\<close>

text \<open>
  What the status call number \<open>k\<close> (counted from 0) yields in a run with handle \<open>qid\<close>:
  the state read from the response, or the exception raised by the call or by reading the
  response. The loop goes on after call \<open>k\<close> exactly when that is a state and not a
  terminal one.
\<close>

definition observed :: "gateway \<Rightarrow> pyval \<Rightarrow> nat \<Rightarrow> exn + pyval" where
  "observed g qid k =
     (case get_query_execution g k qid of
        Inl e \<Rightarrow> Inl e
      | Inr query_response \<Rightarrow> query_state query_response)"

definition pending :: "gateway \<Rightarrow> pyval \<Rightarrow> nat \<Rightarrow> bool" where
  "pending g qid k =
     (case observed g qid k of Inl e \<Rightarrow> False | Inr state \<Rightarrow> \<not> is_terminal state)"

text \<open>The events of \<open>n\<close> rounds of the loop that go on: a status call, then the sleep.\<close>

definition polling_events :: "pyval \<Rightarrow> nat \<Rightarrow> event list" where
  "polling_events qid n = concat (replicate n [GetQueryExecution qid, Sleep 5])"

fun is_status_call :: "event \<Rightarrow> bool" where
  "is_status_call (GetQueryExecution qid) = True"
| "is_status_call ev = False"

fun is_fetch_call :: "event \<Rightarrow> bool" where
  "is_fetch_call (GetQueryResults qid) = True"
| "is_fetch_call ev = False"

definition status_calls :: "event list \<Rightarrow> nat" where
  "status_calls tr = length (filter is_status_call tr)"

definition fetch_calls :: "event list \<Rightarrow> nat" where
  "fetch_calls tr = length (filter is_fetch_call tr)"

text \<open>
  The start of a run: the event of the call of \<open>start_query_execution\<close>, and the handle
  read from its response, or the exception raised by the call or by reading the response.
\<close>

definition start_event :: "(pyval \<Rightarrow> string) \<Rightarrow> gateway connector \<Rightarrow> pyval \<Rightarrow> event" where
  "start_event str_of c query =
     StartQueryExecution query (query_execution_context c) (result_configuration str_of c)"

definition execution_id :: "(pyval \<Rightarrow> string) \<Rightarrow> gateway connector \<Rightarrow> pyval \<Rightarrow> exn + pyval" where
  "execution_id str_of c query =
     (case start_query_execution (client_attr c) query (query_execution_context c)
             (result_configuration str_of c) of
        Inl e \<Rightarrow> Inl e
      | Inr response \<Rightarrow> subscript response ''QueryExecutionId'')"

text \<open>
  The rows read from the response of \<open>get_query_results\<close>, or the exception raised by the
  call or by reading the response.
\<close>

definition fetched :: "gateway \<Rightarrow> pyval \<Rightarrow> exn + pyval" where
  "fetched g qid =
     (case get_query_results g qid of
        Inl e \<Rightarrow> Inl e
      | Inr result_response \<Rightarrow> result_rows result_response)"

section \<open>Example clients and connectors\<close>

text \<open>Responses in the shape the service sends them.\<close>

definition started :: "string \<Rightarrow> pyval" where
  "started qid = PDict [(''QueryExecutionId'', PStr qid)]"

definition execution_response :: "string \<Rightarrow> pyval" where
  "execution_response state =
     PDict [(''QueryExecution'', PDict [(''Status'', PDict [(''State'', PStr state)])])]"

definition results_response :: "string option list list \<Rightarrow> pyval" where
  "results_response rows = PDict [(''ResultSet'', PDict [(''Rows'', PList (map raw_row rows))])]"

text \<open>
  A client with canned answers: \<open>s\<close> to \<open>start_query_execution\<close>, \<open>st k\<close> to the status
  call number \<open>k\<close>, and \<open>r\<close> to \<open>get_query_results\<close>.
\<close>

definition mock_gateway :: "exn + pyval \<Rightarrow> (nat \<Rightarrow> exn + pyval) \<Rightarrow> exn + pyval \<Rightarrow> gateway" where
  "mock_gateway s st r =
     \<lparr>start_query_execution = (\<lambda>query context configuration. s),
      get_query_execution = (\<lambda>k qid. st k),
      get_query_results = (\<lambda>qid. r)\<rparr>"

text \<open>Status answers: \<open>RUNNING\<close> to the first \<open>n\<close> calls, then \<open>final\<close>.\<close>

definition running_then :: "nat \<Rightarrow> exn + pyval \<Rightarrow> nat \<Rightarrow> exn + pyval" where
  "running_then n final k = (if k < n then Inr (execution_response ''RUNNING'') else final)"

text \<open>Status answers: the same answer to every call.\<close>

definition always :: "exn + pyval \<Rightarrow> nat \<Rightarrow> exn + pyval" where
  "always answer k = answer"

text \<open>
  A connector on a given client, with the region, database, workgroup, data catalog,
  output bucket and output location of the example at the end of the source file, and no
  credentials.
\<close>

definition example_connector :: "gateway \<Rightarrow> gateway connector" where
  "example_connector g =
     \<lparr>region_attr = PStr ''us-west-1'',
      database_attr = PStr ''testing'',
      workgroup_attr = PStr ''primary'',
      data_catalog_attr = PStr ''AwsDataCatalog'',
      output_bucket_attr = PStr ''bhupenderhere'',
      output_location_attr = PStr ''athena_query_results/'',
      aws_access_key_id_attr = PNone,
      aws_secret_access_key_attr = PNone,
      client_attr = g\<rparr>"

text \<open>
  The clients of the examples. All answer \<open>start_query_execution\<close> with the handle
  \<open>h1\<close>. \<open>running3_gateway\<close> answers \<open>RUNNING\<close> to the first three status calls and
  \<open>SUCCEEDED\<close> to the fourth; \<open>always_running_gateway\<close> answers \<open>RUNNING\<close> to every
  status call; \<open>failed_gateway\<close> answers \<open>FAILED\<close> to the first status call and has
  no rows.
\<close>

definition running3_gateway :: gateway where
  "running3_gateway =
     mock_gateway (Inr (started ''h1''))
       (running_then 3 (Inr (execution_response ''SUCCEEDED'')))
       (Inr (results_response [[Some ''1'', Some ''2''], [Some ''3'', Some ''4'']]))"

definition always_running_gateway :: gateway where
  "always_running_gateway =
     mock_gateway (Inr (started ''h1'')) (always (Inr (execution_response ''RUNNING'')))
       (Inr (results_response []))"

definition failed_gateway :: gateway where
  "failed_gateway =
     mock_gateway (Inr (started ''h1'')) (always (Inr (execution_response ''FAILED'')))
       (Inr (results_response []))"

text \<open>
  \<open>cancelled_gateway\<close> answers \<open>RUNNING\<close> to the first status call and \<open>CANCELLED\<close> to
  the second, and has one row of two cells, the second null. \<open>succeeded_gateway\<close> answers
  \<open>SUCCEEDED\<close> to the first status call and has one row of two cells.
\<close>

definition cancelled_gateway :: gateway where
  "cancelled_gateway =
     mock_gateway (Inr (started ''h1''))
       (running_then 1 (Inr (execution_response ''CANCELLED'')))
       (Inr (results_response [[Some ''a'', None]]))"

definition succeeded_gateway :: gateway where
  "succeeded_gateway =
     mock_gateway (Inr (started ''h1'')) (always (Inr (execution_response ''SUCCEEDED'')))
       (Inr (results_response [[Some ''1'', Some ''2'']]))"

text \<open>
  Clients with one call that raises: \<open>start_query_execution\<close>; the second status call,
  after a first answer \<open>RUNNING\<close>; \<open>get_query_results\<close>, after a first status answer
  \<open>SUCCEEDED\<close>.
\<close>

definition broken_start_gateway :: gateway where
  "broken_start_gateway =
     mock_gateway (Inl (ClientError ''AccessDeniedException''))
       (always (Inr (execution_response ''SUCCEEDED''))) (Inr (results_response []))"

definition broken_status_gateway :: gateway where
  "broken_status_gateway =
     mock_gateway (Inr (started ''h1''))
       (running_then 1 (Inl (EndpointConnectionError ''Could not connect'')))
       (Inr (results_response []))"

definition broken_fetch_gateway :: gateway where
  "broken_fetch_gateway =
     mock_gateway (Inr (started ''h1'')) (always (Inr (execution_response ''SUCCEEDED'')))
       (Inl (ClientError ''ThrottlingException''))"

text \<open>
  A \<^verbatim>\<open>boto3.client\<close> that returns the client \<open>g\<close> whatever the region and the
  credentials, and the connector that \<open>__init__\<close> builds from a region alone.
\<close>

definition boto3_client_example :: "gateway \<Rightarrow> pyval \<Rightarrow> (pyval \<times> pyval) option \<Rightarrow> exn + gateway" where
  "boto3_client_example g region_name credentials = Inr g"

definition region_only_connector :: "gateway \<Rightarrow> gateway connector" where
  "region_only_connector g =
     \<lparr>region_attr = PStr ''us-west-1'',
      database_attr = PNone,
      workgroup_attr = PNone,
      data_catalog_attr = PNone,
      output_bucket_attr = PNone,
      output_location_attr = PNone,
      aws_access_key_id_attr = PNone,
      aws_secret_access_key_attr = PNone,
      client_attr = g\<rparr>"

text \<open>
  A client that checks the types of the parameters of \<open>start_query_execution\<close> before it
  sends the request, as botocore does: the query, the database and the output location
  must be strings, and \<open>ParamValidationError\<close> is raised otherwise. Its query succeeds at
  the first status call and has one row of two cells.
\<close>

definition has_string :: "pyval \<Rightarrow> string \<Rightarrow> bool" where
  "has_string d key = (case subscript d key of Inl e \<Rightarrow> False | Inr v \<Rightarrow> is_str v)"

definition validating_gateway :: gateway where
  "validating_gateway =
     \<lparr>start_query_execution =
        (\<lambda>query context configuration.
           if is_str query \<and> has_string context ''Database''
                \<and> has_string configuration ''OutputLocation''
           then Inr (started ''h1'')
           else Inl (ParamValidationError ''Parameter validation failed'')),
      get_query_execution = (\<lambda>k qid. Inr (execution_response ''SUCCEEDED'')),
      get_query_results = (\<lambda>qid. Inr (results_response [[Some ''1'', Some ''2'']]))\<rparr>"

text \<open>The connector that \<open>__init__\<close> builds from a region and a database alone.\<close>

definition database_only_connector :: "gateway \<Rightarrow> gateway connector" where
  "database_only_connector g =
     \<lparr>region_attr = PStr ''us-west-1'',
      database_attr = PStr ''testing'',
      workgroup_attr = PNone,
      data_catalog_attr = PNone,
      output_bucket_attr = PNone,
      output_location_attr = PNone,
      aws_access_key_id_attr = PNone,
      aws_secret_access_key_attr = PNone,
      client_attr = g\<rparr>"

text \<open>
  Python's \<^verbatim>\<open>str\<close> for the examples. It is Python's on every value that a stored
  field can hold: a string, which is itself, and the falsy values \<^verbatim>\<open>None\<close>,
  \<^verbatim>\<open>False\<close>, \<^verbatim>\<open>0\<close>, \<^verbatim>\<open>[]\<close> and \<^verbatim>\<open>{}\<close> that construction accepts; and
  also on \<^verbatim>\<open>True\<close> and the other integers. A list or a dictionary that is not empty
  cannot be a stored field, since construction and the setters refuse it; there the
  function gives \<^verbatim>\<open>[...]\<close> and \<^verbatim>\<open>{...}\<close>, which is not Python's rendering of the
  elements.
\<close>

fun decimal :: "nat \<Rightarrow> string" where
  "decimal n =
     (if n < 10 then [''0123456789'' ! n]
      else decimal (n div 10) @ [''0123456789'' ! (n mod 10)])"

declare decimal.simps [simp del]

fun str_of_example :: "pyval \<Rightarrow> string" where
  "str_of_example (PStr s) = s"
| "str_of_example PNone = ''None''"
| "str_of_example (PBool b) = (if b then ''True'' else ''False'')"
| "str_of_example (PInt i) = (if i < 0 then CHR ''-'' # decimal (nat (- i)) else decimal (nat i))"
| "str_of_example (PList []) = ''[]''"
| "str_of_example (PList (v # vs)) = ''[...]''"
| "str_of_example (PDict []) = ''{}''"
| "str_of_example (PDict (kv # kvs)) = ''{...}''"

section \<open>Flattening: properties\<close>

lemma values_loop_raw_cells: "values_loop (map raw_cell cs) = Inr (map cell cs)"
  by (induction cs) (simp_all add: raw_cell_def cell_def split: option.splits)

lemma values_of_raw_cells: "values_of (PList (map raw_cell cs)) = Inr (map cell cs)"
  by (simp add: values_of_def values_loop_raw_cells)

lemma process_loop_raw_rows:
  "process_loop (map raw_row rows) acc
     = Inr (acc @ map (map cell) (filter (\<lambda>r. 1 < length r) rows))"
  by (induction rows arbitrary: acc) (simp_all add: raw_row_def values_of_raw_cells)

text \<open>
  C2. For every fetched sequence of raw result rows, flattening keeps exactly the rows with
  more than one cell, in their order, and a kept row is the row's own cell sequence. The
  rows \<open>[], [a], [a, b], [a, b, c]\<close> flatten to \<open>[a, b], [a, b, c]\<close>.
\<close>

theorem process_data_keeps_wide_rows:
  "process_data (PList (map raw_row rows))
     = Inr (map (map cell) (filter (\<lambda>r. 1 < length r) rows))"
  by (simp add: process_data_def process_loop_raw_rows)

theorem process_data_keeps_wide_rows_witness:
  "process_data
     (PList [PDict [(''Data'', PList [])],
             PDict [(''Data'', PList [PDict [(''VarCharValue'', PStr ''a'')]])],
             PDict [(''Data'', PList [PDict [(''VarCharValue'', PStr ''a'')],
                                      PDict [(''VarCharValue'', PStr ''b'')]])],
             PDict [(''Data'', PList [PDict [(''VarCharValue'', PStr ''a'')],
                                      PDict [(''VarCharValue'', PStr ''b'')],
                                      PDict [(''VarCharValue'', PStr ''c'')]])]])
     = Inr [[PStr ''a'', PStr ''b''], [PStr ''a'', PStr ''b'', PStr ''c'']]"
  using process_data_keeps_wide_rows
    [of "[[], [Some ''a''], [Some ''a'', Some ''b''], [Some ''a'', Some ''b'', Some ''c'']]"]
  by (simp add: raw_row_def raw_cell_def cell_def)

section \<open>The polling loop: properties\<close>

lemma pending_cases:
  "pending g qid k \<Longrightarrow> \<exists>r s. get_query_execution g k qid = Inr r \<and> query_state r = Inr s \<and> \<not> is_terminal s"
  by (auto simp: pending_def observed_def split: sum.splits)

lemma poll_pending:
  "pending g qid k \<Longrightarrow> poll g qid k tr = poll g qid (Suc k) (tr @ [GetQueryExecution qid, Sleep 5])"
  by (subst poll.simps) (auto dest!: pending_cases)

lemma poll_not_pending:
  "\<not> pending g qid k \<Longrightarrow> poll g qid k tr = Some (observed g qid k, tr @ [GetQueryExecution qid])"
  by (subst poll.simps) (auto simp: pending_def observed_def split: sum.splits)

lemma poll_stops:
  "(\<forall>j<n. pending g qid (k + j)) \<Longrightarrow> \<not> pending g qid (k + n) \<Longrightarrow>
     poll g qid k tr
       = Some (observed g qid (k + n), tr @ polling_events qid n @ [GetQueryExecution qid])"
proof (induction n arbitrary: k tr)
  case 0
  then show ?case by (simp add: poll_not_pending polling_events_def)
next
  case (Suc n)
  from Suc.prems(1) have p0: "pending g qid k" by (metis add.right_neutral zero_less_Suc)
  have rest: "\<forall>j<n. pending g qid (Suc k + j)"
    using Suc.prems(1) by (metis add_Suc_shift Suc_less_eq)
  have stop: "\<not> pending g qid (Suc k + n)" using Suc.prems(2) by simp
  show ?case
    using Suc.IH [OF rest stop] p0
    by (simp add: poll_pending polling_events_def)
qed

lemma poll_returns_stop:
  "poll g qid k tr = Some y \<Longrightarrow> \<exists>j. \<not> pending g qid (k + j)"
proof (induct rule: poll.raw_induct [rotated 1, consumes 1])
  case (1 pf g qid k tr y)
  show ?case
  proof (cases "pending g qid k")
    case False
    then show ?thesis by (metis add.right_neutral)
  next
    case True
    then obtain r s where "get_query_execution g k qid = Inr r" "query_state r = Inr s" "\<not> is_terminal s"
      using pending_cases by blast
    with 1(2) have "pf g qid (Suc k) (tr @ [GetQueryExecution qid, Sleep 5]) = Some y" by simp
    from 1(1) [OF this] obtain j where "\<not> pending g qid (Suc k + j)" by blast
    then show ?thesis by (metis add_Suc_shift)
  qed
qed

lemma poll_forever: "(\<forall>j. pending g qid (k + j)) \<Longrightarrow> poll g qid k tr = None"
  using poll_returns_stop by (metis not_Some_eq)

lemma poll_Some_cases:
  assumes "poll g qid k tr = Some y"
  shows "\<exists>n. (\<forall>j<n. pending g qid (k + j)) \<and> \<not> pending g qid (k + n)
          \<and> y = (observed g qid (k + n), tr @ polling_events qid n @ [GetQueryExecution qid])"
proof -
  from poll_returns_stop [OF assms] have "\<exists>j. \<not> pending g qid (k + j)" .
  then obtain n where n: "\<not> pending g qid (k + n)" "\<forall>j<n. pending g qid (k + j)"
    using exists_least_iff [of "\<lambda>j. \<not> pending g qid (k + j)"] by auto
  from poll_stops [OF n(2) n(1)] assms show ?thesis using n by auto
qed

lemma status_query_try_no_handle:
  "execution_id str_of c query = Inl e \<Longrightarrow>
     status_query_try str_of c query = Some (Inl e, [start_event str_of c query])"
  by (auto simp: execution_id_def status_query_try_def start_event_def split: sum.splits)

lemma status_query_try_forever:
  "execution_id str_of c query = Inr qid \<Longrightarrow> (\<forall>k. pending (client_attr c) qid k) \<Longrightarrow>
     status_query_try str_of c query = None"
  using poll_forever [of "client_attr c" qid 0]
  by (auto simp: execution_id_def status_query_try_def start_event_def split: sum.splits)

lemma status_query_try_status_raises:
  "execution_id str_of c query = Inr qid \<Longrightarrow> (\<forall>k<n. pending (client_attr c) qid k) \<Longrightarrow>
   observed (client_attr c) qid n = Inl e \<Longrightarrow>
     status_query_try str_of c query
       = Some (Inl e, start_event str_of c query # polling_events qid n @ [GetQueryExecution qid])"
  using poll_stops [of n "client_attr c" qid 0 "[start_event str_of c query]"]
  by (auto simp: execution_id_def status_query_try_def start_event_def pending_def split: sum.splits)

lemma status_query_try_terminal:
  "execution_id str_of c query = Inr qid \<Longrightarrow> (\<forall>k<n. pending (client_attr c) qid k) \<Longrightarrow>
   observed (client_attr c) qid n = Inr state \<Longrightarrow> is_terminal state \<Longrightarrow>
     status_query_try str_of c query
       = Some (case fetched (client_attr c) qid of Inl e \<Rightarrow> Inl e | Inr data \<Rightarrow> process_data data,
               start_event str_of c query # polling_events qid n
                 @ [GetQueryExecution qid, GetQueryResults qid])"
  using poll_stops [of n "client_attr c" qid 0 "[start_event str_of c query]"]
  by (auto simp: execution_id_def status_query_try_def start_event_def pending_def fetched_def
           split: sum.splits)

lemma status_calls_polling:
  "status_calls (polling_events qid n) = n" "fetch_calls (polling_events qid n) = 0"
  by (induction n) (simp_all add: status_calls_def fetch_calls_def polling_events_def)

lemma status_calls_append: "status_calls (xs @ ys) = status_calls xs + status_calls ys"
  by (simp add: status_calls_def)

lemma fetch_calls_append: "fetch_calls (xs @ ys) = fetch_calls xs + fetch_calls ys"
  by (simp add: fetch_calls_def)

lemma calls_start_event:
  "status_calls (start_event str_of c query # tr) = status_calls tr"
  "fetch_calls (start_event str_of c query # tr) = fetch_calls tr"
  by (simp_all add: status_calls_def fetch_calls_def start_event_def)

lemma calls_single:
  "status_calls [GetQueryExecution qid] = 1" "fetch_calls [GetQueryExecution qid] = 0"
  "status_calls [GetQueryExecution qid, GetQueryResults qid] = 1"
  "fetch_calls [GetQueryExecution qid, GetQueryResults qid] = 1"
  by (simp_all add: status_calls_def fetch_calls_def)

lemma set_polling_events:
  "GetQueryExecution q \<in> set (polling_events qid n) \<Longrightarrow> q = qid"
  by (induction n) (auto simp: polling_events_def)

lemma status_query_try_Some_cases:
  assumes "status_query_try str_of c query = Some (res, tr)"
  shows "(\<exists>e. execution_id str_of c query = Inl e \<and> res = Inl e
              \<and> tr = [start_event str_of c query])
       \<or> (\<exists>qid n e. execution_id str_of c query = Inr qid
              \<and> (\<forall>k<n. pending (client_attr c) qid k)
              \<and> observed (client_attr c) qid n = Inl e \<and> res = Inl e
              \<and> tr = start_event str_of c query # polling_events qid n
                       @ [GetQueryExecution qid])
       \<or> (\<exists>qid n state. execution_id str_of c query = Inr qid
              \<and> (\<forall>k<n. pending (client_attr c) qid k)
              \<and> observed (client_attr c) qid n = Inr state \<and> is_terminal state
              \<and> res = (case fetched (client_attr c) qid of
                          Inl e \<Rightarrow> Inl e | Inr data \<Rightarrow> process_data data)
              \<and> tr = start_event str_of c query # polling_events qid n
                       @ [GetQueryExecution qid, GetQueryResults qid])"
proof (cases "execution_id str_of c query")
  case (Inl e)
  with assms status_query_try_no_handle [OF Inl] show ?thesis by simp
next
  case (Inr qid)
  have "\<not> (\<forall>k. pending (client_attr c) qid k)"
    using status_query_try_forever [OF Inr] assms by auto
  then obtain n where n: "\<not> pending (client_attr c) qid n" "\<forall>k<n. pending (client_attr c) qid k"
    using exists_least_iff [of "\<lambda>k. \<not> pending (client_attr c) qid k"] by auto
  show ?thesis
  proof (cases "observed (client_attr c) qid n")
    case (Inl e)
    from status_query_try_status_raises [OF Inr n(2) Inl] assms Inr n(2) Inl
    show ?thesis by auto
  next
    case st: (Inr state)
    with n(1) have fin: "is_terminal state" by (simp add: pending_def)
    from status_query_try_terminal [OF Inr n(2) st fin] assms Inr n(2) st fin
    show ?thesis by auto
  qed
qed

lemma status_query_Some:
  "status_query_try str_of c query = Some (res, tr) \<Longrightarrow>
     status_query str_of c query
       = Some (case res of Inl e \<Rightarrow> Inl (Exception ''Error While Running Query: '' e)
                         | Inr output \<Rightarrow> Inr output, tr)"
  by (simp add: status_query_def split: sum.splits)

lemma status_query_None:
  "status_query_try str_of c query = None \<Longrightarrow> status_query str_of c query = None"
  by (simp add: status_query_def)

lemma status_query_Some_D:
  "status_query str_of c query = Some (res, tr) \<Longrightarrow>
     \<exists>res'. status_query_try str_of c query = Some (res', tr)
        \<and> res = (case res' of Inl e \<Rightarrow> Inl (Exception ''Error While Running Query: '' e)
                         | Inr output \<Rightarrow> Inr output)"
  by (auto simp: status_query_def split: option.splits sum.splits)

section \<open>Runs of the examples\<close>

lemmas example_defs =
  execution_id_def example_connector_def mock_gateway_def started_def running_then_def always_def
  execution_response_def results_response_def query_state_def is_terminal_def
  pending_def observed_def fetched_def result_rows_def
  running3_gateway_def always_running_gateway_def failed_gateway_def
  cancelled_gateway_def succeeded_gateway_def broken_start_gateway_def
  broken_status_gateway_def broken_fetch_gateway_def
  query_execution_context_def result_configuration_def start_event_def

lemma polling_events_simps:
  "polling_events qid 0 = []"
  "polling_events qid (Suc n) = GetQueryExecution qid # Sleep 5 # polling_events qid n"
  by (simp_all add: polling_events_def)

lemma process_data_raw_rows:
  "process_data (PList (map raw_row rows))
     = Inr (map (map cell) (filter (\<lambda>r. 1 < length r) rows))"
  by (simp add: process_data_def process_loop_raw_rows)

lemma status_query_terminal_rows:
  assumes "execution_id str_of c query = Inr qid"
    and "\<forall>k<n. pending (client_attr c) qid k"
    and "observed (client_attr c) qid n = Inr state"
    and "is_terminal state"
    and "fetched (client_attr c) qid = Inr (PList (map raw_row rows))"
  shows "status_query str_of c query
     = Some (Inr (map (map cell) (filter (\<lambda>r. 1 < length r) rows)),
             start_event str_of c query # polling_events qid n
               @ [GetQueryExecution qid, GetQueryResults qid])"
  using status_query_Some [OF status_query_try_terminal [OF assms(1) assms(2) assms(3) assms(4)]]
  by (simp add: assms(5) process_data_raw_rows)

lemma failed_run:
  "status_query str_of_example (example_connector failed_gateway) (PStr ''SELECT 1'')
     = Some (Inr [],
         [StartQueryExecution (PStr ''SELECT 1'') (PDict [(''Database'', PStr ''testing'')])
            (PDict [(''OutputLocation'', PStr ''s3://bhupenderhere/athena_query_results/'')]),
          GetQueryExecution (PStr ''h1''), GetQueryResults (PStr ''h1'')])"
proof -
  let ?c = "example_connector failed_gateway"
  have h1: "execution_id str_of_example ?c (PStr ''SELECT 1'') = Inr (PStr ''h1'')"
    by (simp add: example_defs)
  have h2: "\<forall>k<0. pending (client_attr ?c) (PStr ''h1'') k"
    by simp
  have h3: "observed (client_attr ?c) (PStr ''h1'') 0 = Inr (PStr ''FAILED'')"
    by (simp add: example_defs)
  have h4: "is_terminal (PStr ''FAILED'')"
    by (simp add: is_terminal_def)
  have h5: "fetched (client_attr ?c) (PStr ''h1'') = Inr (PList (map raw_row []))"
    by (simp add: example_defs)
  from status_query_terminal_rows [OF h1 h2 h3 h4 h5]
  show ?thesis
    by (simp add: polling_events_simps start_event_def query_execution_context_def
          result_configuration_def example_connector_def)
qed

lemma running3_run:
  "status_query str_of_example (example_connector running3_gateway) (PStr ''SELECT 1'')
     = Some (Inr [[PStr ''1'', PStr ''2''], [PStr ''3'', PStr ''4'']],
         [StartQueryExecution (PStr ''SELECT 1'') (PDict [(''Database'', PStr ''testing'')])
            (PDict [(''OutputLocation'', PStr ''s3://bhupenderhere/athena_query_results/'')]),
          GetQueryExecution (PStr ''h1''), Sleep 5,
          GetQueryExecution (PStr ''h1''), Sleep 5,
          GetQueryExecution (PStr ''h1''), Sleep 5,
          GetQueryExecution (PStr ''h1''), GetQueryResults (PStr ''h1'')])"
proof -
  let ?c = "example_connector running3_gateway"
  have h1: "execution_id str_of_example ?c (PStr ''SELECT 1'') = Inr (PStr ''h1'')"
    by (simp add: example_defs)
  have h2: "\<forall>k<3. pending (client_attr ?c) (PStr ''h1'') k"
    by (simp add: example_defs)
  have h3: "observed (client_attr ?c) (PStr ''h1'') 3 = Inr (PStr ''SUCCEEDED'')"
    by (simp add: example_defs)
  have h4: "is_terminal (PStr ''SUCCEEDED'')"
    by (simp add: is_terminal_def)
  have h5: "fetched (client_attr ?c) (PStr ''h1'')
      = Inr (PList (map raw_row [[Some ''1'', Some ''2''], [Some ''3'', Some ''4'']]))"
    by (simp add: example_defs)
  from status_query_terminal_rows [OF h1 h2 h3 h4 h5]
  show ?thesis
    by (simp add: polling_events_simps numeral_3_eq_3 cell_def start_event_def
          query_execution_context_def result_configuration_def example_connector_def)
qed

section \<open>\<open>status_query\<close>: the claims\<close>

text \<open>
  C1. In a run with handle \<open>qid\<close>: when the status calls number \<open>0\<close> to \<open>n - 1\<close> see
  states that are not terminal and call number \<open>n\<close> sees a terminal state (so that this is
  the first one), \<open>status_query\<close> returns, and its events are the start, then \<open>n\<close> times
  a status call followed by a sleep of 5, then one last status call, then the fetch. So it
  makes \<open>n + 1\<close> status calls, at least one and none after the terminal state, and one
  fetch, whatever \<open>n\<close> is. When no status call ever sees a terminal state or raises, the
  run never returns.
\<close>

theorem status_query_polls_until_terminal:
  assumes "execution_id str_of c query = Inr qid"
  shows "(\<forall>n state. (\<forall>k<n. pending (client_attr c) qid k)
             \<and> observed (client_attr c) qid n = Inr state \<and> is_terminal state
           \<longrightarrow> (\<exists>res tr. status_query str_of c query = Some (res, tr)
                  \<and> tr = start_event str_of c query # polling_events qid n
                           @ [GetQueryExecution qid, GetQueryResults qid]
                  \<and> status_calls tr = Suc n \<and> fetch_calls tr = 1))
       \<and> ((\<forall>k. pending (client_attr c) qid k) \<longrightarrow> status_query str_of c query = None)"
proof (intro conjI allI impI)
  fix n state
  assume h: "(\<forall>k<n. pending (client_attr c) qid k)
             \<and> observed (client_attr c) qid n = Inr state \<and> is_terminal state"
  from h have "status_query_try str_of c query
       = Some (case fetched (client_attr c) qid of Inl e \<Rightarrow> Inl e | Inr data \<Rightarrow> process_data data,
               start_event str_of c query # polling_events qid n
                 @ [GetQueryExecution qid, GetQueryResults qid])"
    using status_query_try_terminal [OF assms] by blast
  from status_query_Some [OF this]
  show "\<exists>res tr. status_query str_of c query = Some (res, tr)
                  \<and> tr = start_event str_of c query # polling_events qid n
                           @ [GetQueryExecution qid, GetQueryResults qid]
                  \<and> status_calls tr = Suc n \<and> fetch_calls tr = 1"
    by (simp add: calls_start_event status_calls_append fetch_calls_append
          status_calls_polling calls_single)
next
  assume "\<forall>k. pending (client_attr c) qid k"
  then show "status_query str_of c query = None"
    using status_query_try_forever [OF assms] status_query_None by blast
qed

theorem status_query_polls_until_terminal_witness:
  "execution_id str_of_example (example_connector running3_gateway) (PStr ''SELECT 1'')
     = Inr (PStr ''h1'')
   \<and> pending running3_gateway (PStr ''h1'') 0
   \<and> pending running3_gateway (PStr ''h1'') 1
   \<and> pending running3_gateway (PStr ''h1'') 2
   \<and> observed running3_gateway (PStr ''h1'') 3 = Inr (PStr ''SUCCEEDED'')
   \<and> is_terminal (PStr ''SUCCEEDED'')
   \<and> (\<exists>res tr. status_query str_of_example (example_connector running3_gateway)
                   (PStr ''SELECT 1'') = Some (res, tr)
         \<and> tr = [start_event str_of_example (example_connector running3_gateway)
                    (PStr ''SELECT 1''),
                  GetQueryExecution (PStr ''h1''), Sleep 5,
                  GetQueryExecution (PStr ''h1''), Sleep 5,
                  GetQueryExecution (PStr ''h1''), Sleep 5,
                  GetQueryExecution (PStr ''h1''), GetQueryResults (PStr ''h1'')]
         \<and> status_calls tr = 4 \<and> fetch_calls tr = 1)
   \<and> execution_id str_of_example (example_connector always_running_gateway) (PStr ''SELECT 1'')
     = Inr (PStr ''h1'')
   \<and> (\<forall>k. pending always_running_gateway (PStr ''h1'') k)
   \<and> status_query str_of_example (example_connector always_running_gateway)
        (PStr ''SELECT 1'') = None"
proof -
  let ?c = "example_connector running3_gateway"
  let ?d = "example_connector always_running_gateway"
  have h1: "execution_id str_of_example ?c (PStr ''SELECT 1'') = Inr (PStr ''h1'')"
    by (simp add: example_defs)
  have h2: "\<forall>k<3. pending (client_attr ?c) (PStr ''h1'') k"
    by (simp add: example_defs)
  have h3: "observed (client_attr ?c) (PStr ''h1'') 3 = Inr (PStr ''SUCCEEDED'')"
    by (simp add: example_defs)
  have h4: "is_terminal (PStr ''SUCCEEDED'')"
    by (simp add: is_terminal_def)
  have c1: "client_attr ?c = running3_gateway" "client_attr ?d = always_running_gateway"
    by (simp_all add: example_connector_def)
  have p3: "polling_events (PStr ''h1'') 3
      = [GetQueryExecution (PStr ''h1''), Sleep 5, GetQueryExecution (PStr ''h1''), Sleep 5,
         GetQueryExecution (PStr ''h1''), Sleep 5]"
    by (simp add: polling_events_def numeral_3_eq_3)
  have g1: "execution_id str_of_example ?d (PStr ''SELECT 1'') = Inr (PStr ''h1'')"
    by (simp add: example_defs)
  have g2: "\<forall>k. pending (client_attr ?d) (PStr ''h1'') k"
    by (simp add: example_defs)
  from status_query_polls_until_terminal [OF h1] h2 h3 h4
  have a: "\<exists>res tr. status_query str_of_example ?c (PStr ''SELECT 1'') = Some (res, tr)
         \<and> tr = start_event str_of_example ?c (PStr ''SELECT 1'') # polling_events (PStr ''h1'') 3
                           @ [GetQueryExecution (PStr ''h1''), GetQueryResults (PStr ''h1'')]
                  \<and> status_calls tr = Suc 3 \<and> fetch_calls tr = 1"
    by blast
  from status_query_polls_until_terminal [OF g1] g2
  have b: "status_query str_of_example ?d (PStr ''SELECT 1'') = None"
    by blast
  have h2': "pending running3_gateway (PStr ''h1'') 0"
    "pending running3_gateway (PStr ''h1'') 1" "pending running3_gateway (PStr ''h1'') 2"
    using h2 by (simp_all add: c1)
  show ?thesis
    using a b h1 h2' h3 h4 g1 g2 by (simp add: p3 c1)
qed

lemma returned_run_fetch_cases:
  assumes "status_query str_of c query = Some (res, tr)"
  shows "(fetch_calls tr = 0
          \<and> (\<forall>qid k state. GetQueryExecution qid \<in> set tr \<and> k < status_calls tr
                \<and> observed (client_attr c) qid k = Inr state \<longrightarrow> \<not> is_terminal state))
       \<or> (\<exists>qid n state. execution_id str_of c query = Inr qid
              \<and> (\<forall>k<n. pending (client_attr c) qid k)
              \<and> observed (client_attr c) qid n = Inr state \<and> is_terminal state
              \<and> tr = start_event str_of c query # polling_events qid n
                       @ [GetQueryExecution qid, GetQueryResults qid]
              \<and> fetch_calls tr = 1)"
proof -
  from status_query_Some_D [OF assms] obtain res' where
    run: "status_query_try str_of c query = Some (res', tr)" by blast
  from status_query_try_Some_cases [OF run]
  consider
    (no_handle) "tr = [start_event str_of c query]"
  | (raised) qid n e where "\<forall>k<n. pending (client_attr c) qid k"
        "observed (client_attr c) qid n = Inl e"
        "tr = start_event str_of c query # polling_events qid n @ [GetQueryExecution qid]"
  | (terminal) qid n state where "execution_id str_of c query = Inr qid"
        "\<forall>k<n. pending (client_attr c) qid k"
        "observed (client_attr c) qid n = Inr state" "is_terminal state"
        "tr = start_event str_of c query # polling_events qid n
                @ [GetQueryExecution qid, GetQueryResults qid]"
    by blast
  then show ?thesis
  proof cases
    case no_handle
    then show ?thesis
      by (simp add: calls_start_event fetch_calls_def status_calls_def start_event_def)
  next
    case raised
    have f0: "fetch_calls tr = 0"
      by (simp add: raised(3) calls_start_event fetch_calls_append status_calls_polling
            calls_single)
    have sc: "status_calls tr = Suc n"
      by (simp add: raised(3) calls_start_event status_calls_append status_calls_polling
            calls_single)
    have "\<not> is_terminal state"
      if "GetQueryExecution q \<in> set tr" "k < status_calls tr"
         "observed (client_attr c) q k = Inr state" for q k state
    proof -
      from that(1) have q: "q = qid"
        using set_polling_events [of q qid n] by (auto simp: raised(3) start_event_def)
      from that(2) sc have "k < n \<or> k = n" by auto
      then show ?thesis
      proof
        assume "k < n"
        with raised(1) have "pending (client_attr c) qid k" by blast
        with that(3) q show ?thesis by (simp add: pending_def)
      next
        assume "k = n"
        with raised(2) that(3) q show ?thesis by simp
      qed
    qed
    with f0 show ?thesis by blast
  next
    case terminal
    have "fetch_calls tr = 1"
      by (simp add: terminal(5) calls_start_event fetch_calls_append status_calls_polling
            calls_single)
    with terminal show ?thesis by blast
  qed
qed

lemma poll_rounds:
  "(\<forall>j<m. pending g qid (k + j)) \<Longrightarrow>
     poll g qid k tr = poll g qid (k + m) (tr @ polling_events qid m)"
proof (induction m arbitrary: k tr)
  case 0
  then show ?case by (simp add: polling_events_def)
next
  case (Suc m)
  from Suc.prems have p0: "pending g qid k" by (metis add.right_neutral zero_less_Suc)
  have rest: "\<forall>j<m. pending g qid (Suc k + j)"
    using Suc.prems by (metis add_Suc_shift Suc_less_eq)
  show ?case
    using Suc.IH [OF rest] p0 by (simp add: poll_pending polling_events_def)
qed

text \<open>
  C3, as amended. When the status calls reach a terminal state, whichever of \<open>SUCCEEDED\<close>,
  \<open>FAILED\<close> and \<open>CANCELLED\<close> it is, the run returns and \<open>get_query_results\<close> is
  called exactly once: the fetch is the last event, right after the status call that saw
  the terminal state, and there is none before it. When \<open>start_query_execution\<close> or a
  status call raises, the run returns without a fetch. While the status answers are not
  terminal the loop goes on, and the events of any number of its rounds hold no fetch.
  And every run that returns is one of these: it has no fetch and no status call of it saw
  a terminal state, or it has exactly one fetch, placed as said.
\<close>

theorem fetch_follows_terminal_state:
  "(execution_id str_of c query = Inr qid \<and> (\<forall>k<n. pending (client_attr c) qid k)
       \<and> observed (client_attr c) qid n = Inr state \<and> is_terminal state
     \<longrightarrow> (\<exists>res. status_query str_of c query
                  = Some (res, start_event str_of c query # polling_events qid n
                                 @ [GetQueryExecution qid, GetQueryResults qid]))
         \<and> fetch_calls (start_event str_of c query # polling_events qid n
                          @ [GetQueryExecution qid, GetQueryResults qid]) = 1
         \<and> fetch_calls (start_event str_of c query # polling_events qid n
                          @ [GetQueryExecution qid]) = 0)
   \<and> (execution_id str_of c query = Inl e
     \<longrightarrow> status_query str_of c query
           = Some (Inl (Exception ''Error While Running Query: '' e),
                   [start_event str_of c query])
         \<and> fetch_calls [start_event str_of c query] = 0)
   \<and> (execution_id str_of c query = Inr qid \<and> (\<forall>k<n. pending (client_attr c) qid k)
       \<and> observed (client_attr c) qid n = Inl e
     \<longrightarrow> status_query str_of c query
           = Some (Inl (Exception ''Error While Running Query: '' e),
                   start_event str_of c query # polling_events qid n
                     @ [GetQueryExecution qid])
         \<and> fetch_calls (start_event str_of c query # polling_events qid n
                          @ [GetQueryExecution qid]) = 0)
   \<and> ((\<forall>k<m. pending (client_attr c) qid k)
     \<longrightarrow> poll (client_attr c) qid 0 [start_event str_of c query]
           = poll (client_attr c) qid m (start_event str_of c query # polling_events qid m)
         \<and> fetch_calls (start_event str_of c query # polling_events qid m) = 0)
   \<and> (status_query str_of c query = Some (res, tr)
     \<longrightarrow> (fetch_calls tr = 0
           \<and> (\<forall>qid k state. GetQueryExecution qid \<in> set tr \<and> k < status_calls tr
                 \<and> observed (client_attr c) qid k = Inr state \<longrightarrow> \<not> is_terminal state))
         \<or> (\<exists>qid n state. execution_id str_of c query = Inr qid
               \<and> (\<forall>k<n. pending (client_attr c) qid k)
               \<and> observed (client_attr c) qid n = Inr state \<and> is_terminal state
               \<and> tr = start_event str_of c query # polling_events qid n
                        @ [GetQueryExecution qid, GetQueryResults qid]
               \<and> fetch_calls tr = 1))"
proof -
  have f0: "fetch_calls (start_event str_of c query # polling_events q j @ [GetQueryExecution q])
      = 0" for q j
    by (simp add: calls_start_event fetch_calls_append status_calls_polling calls_single)
  have f1: "fetch_calls (start_event str_of c query # polling_events q j
                          @ [GetQueryExecution q, GetQueryResults q]) = 1" for q j
    by (simp add: calls_start_event fetch_calls_append status_calls_polling calls_single)
  have fp: "fetch_calls (start_event str_of c query # polling_events q j) = 0" for q j
    by (simp add: calls_start_event status_calls_polling)
  have fs: "fetch_calls [start_event str_of c query] = 0"
    by (simp add: fetch_calls_def start_event_def)
  have terminal: "\<exists>res. status_query str_of c query
                  = Some (res, start_event str_of c query # polling_events qid n
                                 @ [GetQueryExecution qid, GetQueryResults qid])"
    if "execution_id str_of c query = Inr qid \<and> (\<forall>k<n. pending (client_attr c) qid k)
       \<and> observed (client_attr c) qid n = Inr state \<and> is_terminal state"
  proof -
    from that have "status_query_try str_of c query
       = Some (case fetched (client_attr c) qid of Inl e \<Rightarrow> Inl e | Inr data \<Rightarrow> process_data data,
               start_event str_of c query # polling_events qid n
                 @ [GetQueryExecution qid, GetQueryResults qid])"
      using status_query_try_terminal by blast
    from status_query_Some [OF this] show ?thesis by blast
  qed
  have no_handle: "status_query str_of c query
           = Some (Inl (Exception ''Error While Running Query: '' e),
                   [start_event str_of c query])"
    if "execution_id str_of c query = Inl e"
    using status_query_Some [OF status_query_try_no_handle [OF that]] by simp
  have raised: "status_query str_of c query
           = Some (Inl (Exception ''Error While Running Query: '' e),
                   start_event str_of c query # polling_events qid n
                     @ [GetQueryExecution qid])"
    if "execution_id str_of c query = Inr qid \<and> (\<forall>k<n. pending (client_attr c) qid k)
       \<and> observed (client_attr c) qid n = Inl e"
  proof -
    from that have "status_query_try str_of c query
       = Some (Inl e, start_event str_of c query # polling_events qid n
                        @ [GetQueryExecution qid])"
      using status_query_try_status_raises by blast
    from status_query_Some [OF this] show ?thesis by simp
  qed
  have rounds: "poll (client_attr c) qid 0 [start_event str_of c query]
           = poll (client_attr c) qid m (start_event str_of c query # polling_events qid m)"
    if "\<forall>k<m. pending (client_attr c) qid k"
    using poll_rounds [of m "client_attr c" qid 0 "[start_event str_of c query]"] that by simp
  show ?thesis
    by ((intro conjI impI;
          rule terminal no_handle raised rounds f0 f1 fp fs returned_run_fetch_cases);
        assumption)
qed

theorem fetch_follows_terminal_state_witness:
  "execution_id str_of_example (example_connector failed_gateway) (PStr ''SELECT 1'')
     = Inr (PStr ''h1'')
   \<and> observed failed_gateway (PStr ''h1'') 0 = Inr (PStr ''FAILED'')
   \<and> is_terminal (PStr ''FAILED'')
   \<and> (\<exists>res. status_query str_of_example (example_connector failed_gateway) (PStr ''SELECT 1'')
         = Some (res,
             [StartQueryExecution (PStr ''SELECT 1'') (PDict [(''Database'', PStr ''testing'')])
                (PDict [(''OutputLocation'', PStr ''s3://bhupenderhere/athena_query_results/'')]),
              GetQueryExecution (PStr ''h1''), GetQueryResults (PStr ''h1'')]))
   \<and> fetch_calls
         [StartQueryExecution (PStr ''SELECT 1'') (PDict [(''Database'', PStr ''testing'')])
            (PDict [(''OutputLocation'', PStr ''s3://bhupenderhere/athena_query_results/'')]),
          GetQueryExecution (PStr ''h1''), GetQueryResults (PStr ''h1'')] = 1
   \<and> fetch_calls
         [StartQueryExecution (PStr ''SELECT 1'') (PDict [(''Database'', PStr ''testing'')])
            (PDict [(''OutputLocation'', PStr ''s3://bhupenderhere/athena_query_results/'')]),
          GetQueryExecution (PStr ''h1'')] = 0
   \<and> execution_id str_of_example (example_connector broken_start_gateway) (PStr ''SELECT 1'')
     = Inl (ClientError ''AccessDeniedException'')
   \<and> status_query str_of_example (example_connector broken_start_gateway) (PStr ''SELECT 1'')
     = Some (Inl (Exception ''Error While Running Query: ''
                    (ClientError ''AccessDeniedException'')),
         [StartQueryExecution (PStr ''SELECT 1'') (PDict [(''Database'', PStr ''testing'')])
            (PDict [(''OutputLocation'', PStr ''s3://bhupenderhere/athena_query_results/'')])])
   \<and> fetch_calls
         [StartQueryExecution (PStr ''SELECT 1'') (PDict [(''Database'', PStr ''testing'')])
            (PDict [(''OutputLocation'', PStr ''s3://bhupenderhere/athena_query_results/'')])]
       = 0
   \<and> execution_id str_of_example (example_connector broken_status_gateway) (PStr ''SELECT 1'')
     = Inr (PStr ''h1'')
   \<and> pending broken_status_gateway (PStr ''h1'') 0
   \<and> observed broken_status_gateway (PStr ''h1'') 1
     = Inl (EndpointConnectionError ''Could not connect'')
   \<and> status_query str_of_example (example_connector broken_status_gateway) (PStr ''SELECT 1'')
     = Some (Inl (Exception ''Error While Running Query: ''
                    (EndpointConnectionError ''Could not connect'')),
         [StartQueryExecution (PStr ''SELECT 1'') (PDict [(''Database'', PStr ''testing'')])
            (PDict [(''OutputLocation'', PStr ''s3://bhupenderhere/athena_query_results/'')]),
          GetQueryExecution (PStr ''h1''), Sleep 5, GetQueryExecution (PStr ''h1'')])
   \<and> fetch_calls
         [StartQueryExecution (PStr ''SELECT 1'') (PDict [(''Database'', PStr ''testing'')])
            (PDict [(''OutputLocation'', PStr ''s3://bhupenderhere/athena_query_results/'')]),
          GetQueryExecution (PStr ''h1''), Sleep 5, GetQueryExecution (PStr ''h1'')] = 0
   \<and> pending always_running_gateway (PStr ''h1'') 0
   \<and> pending always_running_gateway (PStr ''h1'') 1
   \<and> poll always_running_gateway (PStr ''h1'') 0
         [StartQueryExecution (PStr ''SELECT 1'') (PDict [(''Database'', PStr ''testing'')])
            (PDict [(''OutputLocation'', PStr ''s3://bhupenderhere/athena_query_results/'')])]
     = poll always_running_gateway (PStr ''h1'') 2
         [StartQueryExecution (PStr ''SELECT 1'') (PDict [(''Database'', PStr ''testing'')])
            (PDict [(''OutputLocation'', PStr ''s3://bhupenderhere/athena_query_results/'')]),
          GetQueryExecution (PStr ''h1''), Sleep 5, GetQueryExecution (PStr ''h1''), Sleep 5]
   \<and> fetch_calls
         [StartQueryExecution (PStr ''SELECT 1'') (PDict [(''Database'', PStr ''testing'')])
            (PDict [(''OutputLocation'', PStr ''s3://bhupenderhere/athena_query_results/'')]),
          GetQueryExecution (PStr ''h1''), Sleep 5, GetQueryExecution (PStr ''h1''), Sleep 5]
       = 0
   \<and> status_query str_of_example (example_connector failed_gateway) (PStr ''SELECT 1'')
     = Some (Inr [],
         [StartQueryExecution (PStr ''SELECT 1'') (PDict [(''Database'', PStr ''testing'')])
            (PDict [(''OutputLocation'', PStr ''s3://bhupenderhere/athena_query_results/'')]),
          GetQueryExecution (PStr ''h1''), GetQueryResults (PStr ''h1'')])
   \<and> (\<exists>qid n state.
         execution_id str_of_example (example_connector failed_gateway) (PStr ''SELECT 1'')
           = Inr qid
         \<and> (\<forall>k<n. pending failed_gateway qid k)
         \<and> observed failed_gateway qid n = Inr state \<and> is_terminal state
         \<and> [StartQueryExecution (PStr ''SELECT 1'') (PDict [(''Database'', PStr ''testing'')])
              (PDict [(''OutputLocation'', PStr ''s3://bhupenderhere/athena_query_results/'')]),
            GetQueryExecution (PStr ''h1''), GetQueryResults (PStr ''h1'')]
           = start_event str_of_example (example_connector failed_gateway) (PStr ''SELECT 1'')
               # polling_events qid n @ [GetQueryExecution qid, GetQueryResults qid])"
proof -
  let ?q = "PStr ''SELECT 1''"
  let ?h = "PStr ''h1''"
  let ?S = "StartQueryExecution (PStr ''SELECT 1'') (PDict [(''Database'', PStr ''testing'')])
      (PDict [(''OutputLocation'', PStr ''s3://bhupenderhere/athena_query_results/'')])"
  let ?f = "example_connector failed_gateway"
  let ?a = "example_connector broken_start_gateway"
  let ?b = "example_connector broken_status_gateway"
  let ?r = "example_connector always_running_gateway"
  have cl: "client_attr (example_connector g) = g" for g
    by (simp add: example_connector_def)
  have ev: "start_event str_of_example (example_connector g) ?q = ?S" for g
    by (simp add: example_defs)
  have pe: "polling_events ?h 0 = []"
    "polling_events ?h 1 = [GetQueryExecution ?h, Sleep 5]"
    "polling_events ?h 2 = [GetQueryExecution ?h, Sleep 5, GetQueryExecution ?h, Sleep 5]"
    by (simp_all add: polling_events_def numeral_2_eq_2)
  have f1: "execution_id str_of_example ?f ?q = Inr ?h"
    by (simp add: example_defs)
  have f2: "\<forall>k<0. pending (client_attr ?f) ?h k"
    by simp
  have f3: "observed (client_attr ?f) ?h 0 = Inr (PStr ''FAILED'')"
    by (simp add: example_defs)
  have f4: "is_terminal (PStr ''FAILED'')"
    by (simp add: is_terminal_def)
  have a1: "execution_id str_of_example ?a ?q = Inl (ClientError ''AccessDeniedException'')"
    by (simp add: example_defs)
  have b1: "execution_id str_of_example ?b ?q = Inr ?h"
    by (simp add: example_defs)
  have b2: "\<forall>k<1. pending (client_attr ?b) ?h k"
    by (simp add: example_defs)
  have b3: "observed (client_attr ?b) ?h 1 = Inl (EndpointConnectionError ''Could not connect'')"
    by (simp add: example_defs)
  have r2: "\<forall>k<2. pending (client_attr ?r) ?h k"
    by (simp add: example_defs)
  note tf = fetch_follows_terminal_state
    [where str_of = str_of_example and c = ?f and query = ?q and qid = ?h and n = 0
       and state = "PStr ''FAILED''"
       and res = "Inr []" and tr = "[?S, GetQueryExecution ?h, GetQueryResults ?h]"]
  note ta = fetch_follows_terminal_state
    [where str_of = str_of_example and c = ?a and query = ?q
       and e = "ClientError ''AccessDeniedException''"]
  note tb = fetch_follows_terminal_state
    [where str_of = str_of_example and c = ?b and query = ?q and qid = ?h and n = 1
       and e = "EndpointConnectionError ''Could not connect''"]
  note tr = fetch_follows_terminal_state
    [where str_of = str_of_example and c = ?r and query = ?q and qid = ?h and m = 2]
  from tf f1 f2 f3 f4 have w1:
    "(\<exists>res. status_query str_of_example ?f ?q
         = Some (res, [?S, GetQueryExecution ?h, GetQueryResults ?h]))
     \<and> fetch_calls [?S, GetQueryExecution ?h, GetQueryResults ?h] = 1
     \<and> fetch_calls [?S, GetQueryExecution ?h] = 0"
    unfolding ev pe by simp
  from ta a1 have w2:
    "status_query str_of_example ?a ?q
       = Some (Inl (Exception ''Error While Running Query: ''
                      (ClientError ''AccessDeniedException'')), [?S])
     \<and> fetch_calls [?S] = 0"
    unfolding ev by blast
  from tb b1 b2 b3 have w3:
    "status_query str_of_example ?b ?q
       = Some (Inl (Exception ''Error While Running Query: ''
                      (EndpointConnectionError ''Could not connect'')),
               [?S, GetQueryExecution ?h, Sleep 5, GetQueryExecution ?h])
     \<and> fetch_calls [?S, GetQueryExecution ?h, Sleep 5, GetQueryExecution ?h] = 0"
    unfolding ev pe by simp
  from tr r2 have w4:
    "poll (client_attr ?r) ?h 0 [?S]
       = poll (client_attr ?r) ?h 2
           [?S, GetQueryExecution ?h, Sleep 5, GetQueryExecution ?h, Sleep 5]
     \<and> fetch_calls [?S, GetQueryExecution ?h, Sleep 5, GetQueryExecution ?h, Sleep 5] = 0"
    unfolding ev pe by simp
  have nz: "fetch_calls [?S, GetQueryExecution ?h, GetQueryResults ?h] \<noteq> 0"
    by (simp add: fetch_calls_def)
  note ret = tf [THEN conjunct2, THEN conjunct2, THEN conjunct2, THEN conjunct2]
  from ret failed_run nz have w5:
    "\<exists>qid n state.
         execution_id str_of_example ?f ?q = Inr qid
         \<and> (\<forall>k<n. pending (client_attr ?f) qid k)
         \<and> observed (client_attr ?f) qid n = Inr state \<and> is_terminal state
         \<and> [?S, GetQueryExecution ?h, GetQueryResults ?h]
           = start_event str_of_example ?f ?q
               # polling_events qid n @ [GetQueryExecution qid, GetQueryResults qid]"
    by blast
  have b2': "pending broken_status_gateway ?h 0"
    using b2 by (simp add: cl)
  have r2': "pending always_running_gateway ?h 0" "pending always_running_gateway ?h 1"
    using r2 by (simp_all add: cl)
  show ?thesis
    using f1 f3 f4 w1 a1 w2 b1 b2' b3 w3 r2' w4 failed_run w5
    unfolding cl by - (elim conjE, (intro conjI; assumption))
qed

text \<open>
  C3 as stated asks for a \<open>SUCCEEDED\<close> state before the fetch. On a client whose first
  status answer is \<open>FAILED\<close> the run still calls \<open>get_query_results\<close>.
\<close>

theorem fetch_after_failed_counterexample:
  "observed failed_gateway (PStr ''h1'') 0 = Inr (PStr ''FAILED'')
   \<and> status_query str_of_example (example_connector failed_gateway) (PStr ''SELECT 1'')
     = Some (Inr [],
         [StartQueryExecution (PStr ''SELECT 1'') (PDict [(''Database'', PStr ''testing'')])
            (PDict [(''OutputLocation'', PStr ''s3://bhupenderhere/athena_query_results/'')]),
          GetQueryExecution (PStr ''h1''), GetQueryResults (PStr ''h1'')])"
  using failed_run by (simp add: example_defs)

text \<open>
  C4. When the first terminal state is \<open>FAILED\<close> or \<open>CANCELLED\<close> and no client call
  raises, the fetched rows being in the service's shape, \<open>status_query\<close> raises nothing:
  it returns the flattening of whatever rows the fetch gave.
\<close>

theorem failed_or_cancelled_returns_table:
  assumes "execution_id str_of c query = Inr qid"
    and "\<forall>k<n. pending (client_attr c) qid k"
    and "observed (client_attr c) qid n = Inr (PStr state)"
    and "state = ''FAILED'' \<or> state = ''CANCELLED''"
    and "fetched (client_attr c) qid = Inr (PList (map raw_row rows))"
  shows "status_query str_of c query
     = Some (Inr (map (map cell) (filter (\<lambda>r. 1 < length r) rows)),
             start_event str_of c query # polling_events qid n
               @ [GetQueryExecution qid, GetQueryResults qid])"
proof -
  from assms(4) have fin: "is_terminal (PStr state)"
    by (auto simp: is_terminal_def)
  from status_query_terminal_rows [OF assms(1) assms(2) assms(3) fin assms(5)]
  show ?thesis .
qed

theorem failed_or_cancelled_returns_table_witness:
  "execution_id str_of_example (example_connector cancelled_gateway) (PStr ''SELECT 1'')
     = Inr (PStr ''h1'')
   \<and> pending cancelled_gateway (PStr ''h1'') 0
   \<and> observed cancelled_gateway (PStr ''h1'') 1 = Inr (PStr ''CANCELLED'')
   \<and> (''CANCELLED'' = ''FAILED'' \<or> ''CANCELLED'' = ''CANCELLED'')
   \<and> fetched cancelled_gateway (PStr ''h1'') = Inr (PList (map raw_row [[Some ''a'', None]]))
   \<and> status_query str_of_example (example_connector cancelled_gateway) (PStr ''SELECT 1'')
     = Some (Inr [[PStr ''a'', PNone]],
         [StartQueryExecution (PStr ''SELECT 1'') (PDict [(''Database'', PStr ''testing'')])
            (PDict [(''OutputLocation'', PStr ''s3://bhupenderhere/athena_query_results/'')]),
          GetQueryExecution (PStr ''h1''), Sleep 5,
          GetQueryExecution (PStr ''h1''), GetQueryResults (PStr ''h1'')])"
proof -
  let ?c = "example_connector cancelled_gateway"
  have c: "client_attr ?c = cancelled_gateway"
    by (simp add: example_connector_def)
  have h1: "execution_id str_of_example ?c (PStr ''SELECT 1'') = Inr (PStr ''h1'')"
    by (simp add: example_defs)
  have h2: "\<forall>k<1. pending (client_attr ?c) (PStr ''h1'') k"
    by (simp add: example_defs)
  have h3: "observed (client_attr ?c) (PStr ''h1'') 1 = Inr (PStr ''CANCELLED'')"
    by (simp add: example_defs)
  have h4: "''CANCELLED'' = ''FAILED'' \<or> ''CANCELLED'' = ''CANCELLED''"
    by simp
  have h5: "fetched (client_attr ?c) (PStr ''h1'') = Inr (PList (map raw_row [[Some ''a'', None]]))"
    by (simp add: example_defs)
  from failed_or_cancelled_returns_table [OF h1 h2 h3 h4 h5]
  have "status_query str_of_example ?c (PStr ''SELECT 1'')
     = Some (Inr [[PStr ''a'', PNone]],
         [StartQueryExecution (PStr ''SELECT 1'') (PDict [(''Database'', PStr ''testing'')])
            (PDict [(''OutputLocation'', PStr ''s3://bhupenderhere/athena_query_results/'')]),
          GetQueryExecution (PStr ''h1''), Sleep 5,
          GetQueryExecution (PStr ''h1''), GetQueryResults (PStr ''h1'')])"
    by (simp add: polling_events_simps cell_def start_event_def
          query_execution_context_def result_configuration_def example_connector_def)
  moreover from h2 have "pending cancelled_gateway (PStr ''h1'') 0"
    by (simp add: c)
  ultimately show ?thesis
    using h1 h3 h4 h5 unfolding c by blast
qed

text \<open>
  C6. When \<open>start_query_execution\<close>, a status call or \<open>get_query_results\<close> raises \<open>e\<close>,
  \<open>status_query\<close> raises one \<open>Exception\<close> built from \<open>e\<close> itself, and the call that
  raised is the last event of the run: it is not made again and no other call follows.
\<close>

theorem gateway_error_wrapped_once:
  "(start_query_execution (client_attr c) query (query_execution_context c)
       (result_configuration str_of c) = Inl e
     \<longrightarrow> status_query str_of c query
           = Some (Inl (Exception ''Error While Running Query: '' e),
                   [start_event str_of c query]))
   \<and> (execution_id str_of c query = Inr qid \<and> (\<forall>k<n. pending (client_attr c) qid k)
       \<and> get_query_execution (client_attr c) n qid = Inl e
     \<longrightarrow> status_query str_of c query
           = Some (Inl (Exception ''Error While Running Query: '' e),
                   start_event str_of c query # polling_events qid n
                     @ [GetQueryExecution qid]))
   \<and> (execution_id str_of c query = Inr qid \<and> (\<forall>k<n. pending (client_attr c) qid k)
       \<and> observed (client_attr c) qid n = Inr state \<and> is_terminal state
       \<and> get_query_results (client_attr c) qid = Inl e
     \<longrightarrow> status_query str_of c query
           = Some (Inl (Exception ''Error While Running Query: '' e),
                   start_event str_of c query # polling_events qid n
                     @ [GetQueryExecution qid, GetQueryResults qid]))"
proof (intro conjI impI)
  assume "start_query_execution (client_attr c) query (query_execution_context c)
       (result_configuration str_of c) = Inl e"
  then have "execution_id str_of c query = Inl e"
    by (simp add: execution_id_def)
  from status_query_Some [OF status_query_try_no_handle [OF this]]
  show "status_query str_of c query
           = Some (Inl (Exception ''Error While Running Query: '' e),
                   [start_event str_of c query])"
    by simp
next
  assume h: "execution_id str_of c query = Inr qid \<and> (\<forall>k<n. pending (client_attr c) qid k)
       \<and> get_query_execution (client_attr c) n qid = Inl e"
  then have "observed (client_attr c) qid n = Inl e"
    by (simp add: observed_def)
  with h have "status_query_try str_of c query
       = Some (Inl e, start_event str_of c query # polling_events qid n @ [GetQueryExecution qid])"
    using status_query_try_status_raises by blast
  from status_query_Some [OF this]
  show "status_query str_of c query
           = Some (Inl (Exception ''Error While Running Query: '' e),
                   start_event str_of c query # polling_events qid n
                     @ [GetQueryExecution qid])"
    by simp
next
  assume h: "execution_id str_of c query = Inr qid \<and> (\<forall>k<n. pending (client_attr c) qid k)
       \<and> observed (client_attr c) qid n = Inr state \<and> is_terminal state
       \<and> get_query_results (client_attr c) qid = Inl e"
  then have f: "fetched (client_attr c) qid = Inl e"
    by (simp add: fetched_def)
  from h have "status_query_try str_of c query
       = Some (case fetched (client_attr c) qid of Inl e \<Rightarrow> Inl e | Inr data \<Rightarrow> process_data data,
               start_event str_of c query # polling_events qid n
                 @ [GetQueryExecution qid, GetQueryResults qid])"
    using status_query_try_terminal by blast
  from status_query_Some [OF this]
  show "status_query str_of c query
           = Some (Inl (Exception ''Error While Running Query: '' e),
                   start_event str_of c query # polling_events qid n
                     @ [GetQueryExecution qid, GetQueryResults qid])"
    by (simp add: f)
qed

theorem gateway_error_wrapped_once_witness:
  "start_query_execution broken_start_gateway (PStr ''SELECT 1'')
       (PDict [(''Database'', PStr ''testing'')])
       (PDict [(''OutputLocation'', PStr ''s3://bhupenderhere/athena_query_results/'')])
     = Inl (ClientError ''AccessDeniedException'')
   \<and> status_query str_of_example (example_connector broken_start_gateway) (PStr ''SELECT 1'')
     = Some (Inl (Exception ''Error While Running Query: ''
                    (ClientError ''AccessDeniedException'')),
         [StartQueryExecution (PStr ''SELECT 1'') (PDict [(''Database'', PStr ''testing'')])
            (PDict [(''OutputLocation'', PStr ''s3://bhupenderhere/athena_query_results/'')])])
   \<and> execution_id str_of_example (example_connector broken_status_gateway) (PStr ''SELECT 1'')
     = Inr (PStr ''h1'')
   \<and> pending broken_status_gateway (PStr ''h1'') 0
   \<and> get_query_execution broken_status_gateway 1 (PStr ''h1'')
     = Inl (EndpointConnectionError ''Could not connect'')
   \<and> status_query str_of_example (example_connector broken_status_gateway) (PStr ''SELECT 1'')
     = Some (Inl (Exception ''Error While Running Query: ''
                    (EndpointConnectionError ''Could not connect'')),
         [StartQueryExecution (PStr ''SELECT 1'') (PDict [(''Database'', PStr ''testing'')])
            (PDict [(''OutputLocation'', PStr ''s3://bhupenderhere/athena_query_results/'')]),
          GetQueryExecution (PStr ''h1''), Sleep 5, GetQueryExecution (PStr ''h1'')])
   \<and> execution_id str_of_example (example_connector broken_fetch_gateway) (PStr ''SELECT 1'')
     = Inr (PStr ''h1'')
   \<and> observed broken_fetch_gateway (PStr ''h1'') 0 = Inr (PStr ''SUCCEEDED'')
   \<and> is_terminal (PStr ''SUCCEEDED'')
   \<and> get_query_results broken_fetch_gateway (PStr ''h1'')
     = Inl (ClientError ''ThrottlingException'')
   \<and> status_query str_of_example (example_connector broken_fetch_gateway) (PStr ''SELECT 1'')
     = Some (Inl (Exception ''Error While Running Query: ''
                    (ClientError ''ThrottlingException'')),
         [StartQueryExecution (PStr ''SELECT 1'') (PDict [(''Database'', PStr ''testing'')])
            (PDict [(''OutputLocation'', PStr ''s3://bhupenderhere/athena_query_results/'')]),
          GetQueryExecution (PStr ''h1''), GetQueryResults (PStr ''h1'')])"
proof -
  let ?a = "example_connector broken_start_gateway"
  let ?b = "example_connector broken_status_gateway"
  let ?c = "example_connector broken_fetch_gateway"
  let ?q = "PStr ''SELECT 1''"
  let ?h = "PStr ''h1''"
  have a1: "start_query_execution (client_attr ?a) ?q (query_execution_context ?a)
       (result_configuration str_of_example ?a) = Inl (ClientError ''AccessDeniedException'')"
    by (simp add: example_defs)
  have b1: "execution_id str_of_example ?b ?q = Inr ?h"
    by (simp add: example_defs)
  have b2: "\<forall>k<1. pending (client_attr ?b) ?h k"
    by (simp add: example_defs)
  have b3: "get_query_execution (client_attr ?b) 1 ?h
      = Inl (EndpointConnectionError ''Could not connect'')"
    by (simp add: example_defs)
  have c1: "execution_id str_of_example ?c ?q = Inr ?h"
    by (simp add: example_defs)
  have c2: "\<forall>k<0. pending (client_attr ?c) ?h k"
    by simp
  have c3: "observed (client_attr ?c) ?h 0 = Inr (PStr ''SUCCEEDED'')"
    by (simp add: example_defs)
  have c4: "is_terminal (PStr ''SUCCEEDED'')"
    by (simp add: is_terminal_def)
  have c5: "get_query_results (client_attr ?c) ?h = Inl (ClientError ''ThrottlingException'')"
    by (simp add: example_defs)
  have ra: "status_query str_of_example ?a ?q
      = Some (Inl (Exception ''Error While Running Query: ''
                     (ClientError ''AccessDeniedException'')),
              [start_event str_of_example ?a ?q])"
    using gateway_error_wrapped_once [of ?a ?q str_of_example] a1 by blast
  have rb: "status_query str_of_example ?b ?q
      = Some (Inl (Exception ''Error While Running Query: ''
                     (EndpointConnectionError ''Could not connect'')),
              start_event str_of_example ?b ?q # polling_events ?h 1 @ [GetQueryExecution ?h])"
    using gateway_error_wrapped_once [of ?b ?q str_of_example _ ?h 1] b1 b2 b3 by blast
  have rc: "status_query str_of_example ?c ?q
      = Some (Inl (Exception ''Error While Running Query: '' (ClientError ''ThrottlingException'')),
              start_event str_of_example ?c ?q # polling_events ?h 0
                @ [GetQueryExecution ?h, GetQueryResults ?h])"
    using gateway_error_wrapped_once [of ?c ?q str_of_example _ ?h 0] c1 c2 c3 c4 c5 by blast
  have ev: "start_event str_of_example (example_connector g) ?q
      = StartQueryExecution ?q (PDict [(''Database'', PStr ''testing'')])
          (PDict [(''OutputLocation'', PStr ''s3://bhupenderhere/athena_query_results/'')])" for g
    by (simp add: example_defs)
  have cl: "client_attr (example_connector g) = g" for g
    by (simp add: example_connector_def)
  have ctx: "query_execution_context (example_connector g) = PDict [(''Database'', PStr ''testing'')]"
    "result_configuration str_of_example (example_connector g)
       = PDict [(''OutputLocation'', PStr ''s3://bhupenderhere/athena_query_results/'')]" for g
    by (simp_all add: example_defs)
  have b2': "pending broken_status_gateway (PStr ''h1'') 0"
    using b2 by (simp add: cl)
  show ?thesis
    using a1 b1 b2' b3 c1 c3 c4 c5 ra rb rc
    unfolding ev cl ctx by (simp add: polling_events_simps)
qed

section \<open>Flattening and configuration: the claims\<close>

lemma process_loop_filter_dict: "process_loop (filter is_dict ds) acc = process_loop ds acc"
  by (induction ds arbitrary: acc) (simp_all split: sum.splits)

lemma process_loop_wide:
  "process_loop ds acc = Inr out \<Longrightarrow> (\<forall>r\<in>set acc. 2 \<le> length r) \<Longrightarrow>
     (\<forall>r\<in>set out. 2 \<le> length r)"
proof (induction ds arbitrary: acc)
  case Nil
  then show ?case by simp
next
  case (Cons d ds)
  show ?case
  proof (cases "is_dict d")
    case False
    with Cons.prems have "process_loop ds acc = Inr out" by simp
    from Cons.IH [OF this Cons.prems(2)] show ?thesis .
  next
    case True
    then obtain kvs where d: "d = PDict kvs" by (cases d) simp_all
    show ?thesis
    proof (cases "values_of (case map_of kvs ''Data'' of None \<Rightarrow> PList [] | Some v \<Rightarrow> v)")
      case (Inl e)
      with Cons.prems(1) d show ?thesis by simp
    next
      case (Inr vs)
      show ?thesis
      proof (cases "1 < length vs")
        case True
        with Cons.prems(1) d Inr have run: "process_loop ds (acc @ [vs]) = Inr out" by simp
        from True Cons.prems(2) have "\<forall>r\<in>set (acc @ [vs]). 2 \<le> length r" by auto
        from Cons.IH [OF run this] show ?thesis .
      next
        case False
        with Cons.prems(1) d Inr have "process_loop ds acc = Inr out" by simp
        from Cons.IH [OF this Cons.prems(2)] show ?thesis .
      qed
    qed
  qed
qed

lemma process_data_wide:
  "process_data data = Inr out \<Longrightarrow> \<forall>r\<in>set out. 2 \<le> length r"
  using process_loop_wide [of _ "[]" out]
  by (auto simp: process_data_def split: sum.splits)

lemma status_query_output_flattened:
  assumes "status_query str_of c query = Some (Inr output, tr)"
  shows "\<exists>data. process_data data = Inr output"
proof -
  from status_query_Some_D [OF assms] obtain res' where
    run: "status_query_try str_of c query = Some (res', tr)" and
    res: "Inr output = (case res' of Inl e \<Rightarrow> Inl (Exception ''Error While Running Query: '' e)
                         | Inr output \<Rightarrow> Inr output)"
    by blast
  from res have r: "res' = Inr output" by (cases res') simp_all
  from status_query_try_Some_cases [OF run] r
  obtain qid where "Inr output = (case fetched (client_attr c) qid of
                          Inl e \<Rightarrow> Inl e | Inr data \<Rightarrow> process_data data)"
    by auto
  then show ?thesis by (cases "fetched (client_attr c) qid") auto
qed

text \<open>
  C9. Flattening skips every entry that is not a dictionary: the result is that of the
  dictionary entries alone. Every row of a table that \<open>process_data\<close> returns, and so
  every row of a table that \<open>status_query\<close> returns, has at least two cells.
\<close>

theorem flattened_rows_have_two_cells:
  "process_data (PList ds) = process_data (PList (filter is_dict ds))
   \<and> (process_data data = Inr table \<longrightarrow> (\<forall>row\<in>set table. 2 \<le> length row))
   \<and> (status_query str_of c query = Some (Inr output, tr)
        \<longrightarrow> (\<forall>row\<in>set output. 2 \<le> length row))"
proof (intro conjI impI)
  show "process_data (PList ds) = process_data (PList (filter is_dict ds))"
    by (simp add: process_data_def process_loop_filter_dict)
next
  assume "process_data data = Inr table"
  then show "\<forall>row\<in>set table. 2 \<le> length row" by (rule process_data_wide)
next
  assume "status_query str_of c query = Some (Inr output, tr)"
  from status_query_output_flattened [OF this] obtain data where
    "process_data data = Inr output" by blast
  then show "\<forall>row\<in>set output. 2 \<le> length row" by (rule process_data_wide)
qed

theorem flattened_rows_have_two_cells_witness:
  "process_data (PList [PInt 7, raw_row [Some ''a'', Some ''b''], PStr ''x'', PNone,
       raw_row [Some ''c'']])
     = Inr [[PStr ''a'', PStr ''b'']]
   \<and> process_data (PList (filter is_dict
        [PInt 7, raw_row [Some ''a'', Some ''b''], PStr ''x'', PNone, raw_row [Some ''c'']]))
     = Inr [[PStr ''a'', PStr ''b'']]
   \<and> 2 \<le> length [PStr ''a'', PStr ''b'']
   \<and> status_query str_of_example (example_connector running3_gateway) (PStr ''SELECT 1'')
     = Some (Inr [[PStr ''1'', PStr ''2''], [PStr ''3'', PStr ''4'']],
         [StartQueryExecution (PStr ''SELECT 1'') (PDict [(''Database'', PStr ''testing'')])
            (PDict [(''OutputLocation'', PStr ''s3://bhupenderhere/athena_query_results/'')]),
          GetQueryExecution (PStr ''h1''), Sleep 5,
          GetQueryExecution (PStr ''h1''), Sleep 5,
          GetQueryExecution (PStr ''h1''), Sleep 5,
          GetQueryExecution (PStr ''h1''), GetQueryResults (PStr ''h1'')])
   \<and> 2 \<le> length [PStr ''1'', PStr ''2'']
   \<and> 2 \<le> length [PStr ''3'', PStr ''4'']"
proof -
  let ?ds = "[PInt 7, raw_row [Some ''a'', Some ''b''], PStr ''x'', PNone, raw_row [Some ''c'']]"
  have f: "filter is_dict ?ds = map raw_row [[Some ''a'', Some ''b''], [Some ''c'']]"
    by (simp add: raw_row_def)
  have p: "process_data (PList (filter is_dict ?ds)) = Inr [[PStr ''a'', PStr ''b'']]"
    unfolding f process_data_raw_rows by (simp add: cell_def)
  note t = flattened_rows_have_two_cells
    [of ?ds "PList ?ds" "[[PStr ''a'', PStr ''b'']]" str_of_example
        "example_connector running3_gateway" "PStr ''SELECT 1''"
        "[[PStr ''1'', PStr ''2''], [PStr ''3'', PStr ''4'']]"]
  from t p running3_run
  have "process_data (PList ?ds) = Inr [[PStr ''a'', PStr ''b'']]
      \<and> (\<forall>row\<in>set [[PStr ''a'', PStr ''b'']]. 2 \<le> length row)
      \<and> (\<forall>row\<in>set [[PStr ''1'', PStr ''2''], [PStr ''3'', PStr ''4'']]. 2 \<le> length row)"
    by metis
  with p running3_run show ?thesis by simp
qed

text \<open>
  C8. Each of the five setters, given a value that is not a string, raises \<open>TypeError\<close>
  and leaves the connector as it was; given a string, it stores it in its attribute.
\<close>

theorem setters_check_type:
  "(is_str v \<longrightarrow>
       set_database c v = (Inr (), c\<lparr>database_attr := v\<rparr>)
     \<and> set_output_bucket c v = (Inr (), c\<lparr>output_bucket_attr := v\<rparr>)
     \<and> set_output_location c v = (Inr (), c\<lparr>output_location_attr := v\<rparr>)
     \<and> set_workgroup c v = (Inr (), c\<lparr>workgroup_attr := v\<rparr>)
     \<and> set_data_catalog c v = (Inr (), c\<lparr>data_catalog_attr := v\<rparr>))
   \<and> (\<not> is_str v \<longrightarrow>
       set_database c v
         = (Inl (TypeError ''`database` -> Expected String Or Bytes-Like Object''), c)
     \<and> set_output_bucket c v
         = (Inl (TypeError ''`output_bucket` -> Expected String Or Bytes-Like Object''), c)
     \<and> set_output_location c v
         = (Inl (TypeError ''`output_location` -> Expected String Or Bytes-Like Object''), c)
     \<and> set_workgroup c v
         = (Inl (TypeError ''`workgroup` -> Expected String Or Bytes-Like Object''), c)
     \<and> set_data_catalog c v
         = (Inl (TypeError ''`data_catalog` -> Expected String Or Bytes-Like Object''), c))"
  by (simp add: set_database_def set_output_bucket_def set_output_location_def
        set_workgroup_def set_data_catalog_def)

theorem setters_check_type_witness:
  "is_str (PStr ''sales'')
   \<and> set_database (example_connector succeeded_gateway) (PStr ''sales'')
       = (Inr (), (example_connector succeeded_gateway)\<lparr>database_attr := PStr ''sales''\<rparr>)
   \<and> database_attr (snd (set_database (example_connector succeeded_gateway) (PStr ''sales'')))
       = PStr ''sales''
   \<and> \<not> is_str (PInt 7)
   \<and> set_database (example_connector succeeded_gateway) (PInt 7)
       = (Inl (TypeError ''`database` -> Expected String Or Bytes-Like Object''),
          example_connector succeeded_gateway)
   \<and> database_attr (snd (set_database (example_connector succeeded_gateway) (PInt 7)))
       = PStr ''testing''
   \<and> \<not> is_str PNone
   \<and> set_workgroup (example_connector succeeded_gateway) PNone
       = (Inl (TypeError ''`workgroup` -> Expected String Or Bytes-Like Object''),
          example_connector succeeded_gateway)"
  using setters_check_type [of "PStr ''sales''" "example_connector succeeded_gateway"]
    setters_check_type [of "PInt 7" "example_connector succeeded_gateway"]
    setters_check_type [of PNone "example_connector succeeded_gateway"]
  by (simp add: example_connector_def)

lemma names_without_region:
  "str_in ''region'' ''region'' = True"
  "str_in ''region'' ''database'' = False"
  "str_in ''region'' ''workgroup'' = False"
  "str_in ''region'' ''data_catalog'' = False"
  "str_in ''region'' ''output_bucket'' = False"
  "str_in ''region'' ''output_location'' = False"
  "str_in ''region'' ''aws_access_key_id'' = False"
  "str_in ''region'' ''aws_secret_access_key'' = False"
  by simp_all

lemma check_region:
  "check k ''region''
     = (if \<not> is_str k then Inl (TypeError ''`region` -> Expected String Or Bytes-Like Object'')
        else Inr ())"
  by (simp add: check_def names_without_region del: str_in.simps)

lemma check_others:
  "check k ''database''
     = (if truthy k \<and> \<not> is_str k
        then Inl (TypeError ''`database` -> Expected String Or Bytes-Like Object'') else Inr ())"
  "check k ''workgroup''
     = (if truthy k \<and> \<not> is_str k
        then Inl (TypeError ''`workgroup` -> Expected String Or Bytes-Like Object'') else Inr ())"
  "check k ''data_catalog''
     = (if truthy k \<and> \<not> is_str k
        then Inl (TypeError ''`data_catalog` -> Expected String Or Bytes-Like Object'')
        else Inr ())"
  "check k ''output_bucket''
     = (if truthy k \<and> \<not> is_str k
        then Inl (TypeError ''`output_bucket` -> Expected String Or Bytes-Like Object'')
        else Inr ())"
  "check k ''output_location''
     = (if truthy k \<and> \<not> is_str k
        then Inl (TypeError ''`output_location` -> Expected String Or Bytes-Like Object'')
        else Inr ())"
  "check k ''aws_access_key_id''
     = (if truthy k \<and> \<not> is_str k
        then Inl (TypeError ''`aws_access_key_id` -> Expected String Or Bytes-Like Object'')
        else Inr ())"
  "check k ''aws_secret_access_key''
     = (if truthy k \<and> \<not> is_str k
        then Inl (TypeError ''`aws_secret_access_key` -> Expected String Or Bytes-Like Object'')
        else Inr ())"
  by (simp_all add: check_def names_without_region del: str_in.simps)

lemma case_if_raise:
  "(case (if b then Inl x else z) of Inl e \<Rightarrow> Inl e | Inr u \<Rightarrow> y)
     = (if b then Inl x else (case z of Inl e \<Rightarrow> Inl e | Inr u \<Rightarrow> y))"
  by simp

lemma get_args_result:
  "get_args r d w dc ob ol kid sec =
     (if \<not> is_str r then Inl (TypeError ''`region` -> Expected String Or Bytes-Like Object'')
      else if truthy d \<and> \<not> is_str d
        then Inl (TypeError ''`database` -> Expected String Or Bytes-Like Object'')
      else if truthy w \<and> \<not> is_str w
        then Inl (TypeError ''`workgroup` -> Expected String Or Bytes-Like Object'')
      else if truthy dc \<and> \<not> is_str dc
        then Inl (TypeError ''`data_catalog` -> Expected String Or Bytes-Like Object'')
      else if truthy ob \<and> \<not> is_str ob
        then Inl (TypeError ''`output_bucket` -> Expected String Or Bytes-Like Object'')
      else if truthy ol \<and> \<not> is_str ol
        then Inl (TypeError ''`output_location` -> Expected String Or Bytes-Like Object'')
      else if truthy kid \<and> \<not> is_str kid
        then Inl (TypeError ''`aws_access_key_id` -> Expected String Or Bytes-Like Object'')
      else if truthy sec \<and> \<not> is_str sec
        then Inl (TypeError ''`aws_secret_access_key` -> Expected String Or Bytes-Like Object'')
      else Inr [(''region'', r), (''database'', d), (''workgroup'', w), (''data_catalog'', dc),
                (''output_bucket'', ob), (''output_location'', ol),
                (''aws_access_key_id'', kid), (''aws_secret_access_key'', sec)])"
  unfolding get_args_def checks.simps check_region check_others
  by (simp only: case_if_raise sum.case)

lemma init_get_args_raises:
  "get_args r d w dc ob ol kid sec = Inl e \<Longrightarrow> init bc r d w dc ob ol kid sec = Inl e"
  by (simp add: init_def)

lemma get_args_accepts:
  "is_str r \<Longrightarrow> (\<forall>v\<in>set [d, w, dc, ob, ol, kid, sec]. truthy v \<longrightarrow> is_str v) \<Longrightarrow>
     get_args r d w dc ob ol kid sec
       = Inr [(''region'', r), (''database'', d), (''workgroup'', w), (''data_catalog'', dc),
              (''output_bucket'', ob), (''output_location'', ol),
              (''aws_access_key_id'', kid), (''aws_secret_access_key'', sec)]"
  by (simp add: get_args_result)

lemma init_accepted:
  assumes "is_str r" and "\<forall>v\<in>set [d, w, dc, ob, ol, kid, sec]. truthy v \<longrightarrow> is_str v"
  shows "init bc r d w dc ob ol kid sec
     = (case (if truthy kid \<and> truthy sec then bc r (Some (kid, sec)) else bc r None) of
          Inl e \<Rightarrow> Inl e
        | Inr cl \<Rightarrow>
            Inr \<lparr>region_attr = r, database_attr = d, workgroup_attr = w,
                 data_catalog_attr = dc, output_bucket_attr = ob, output_location_attr = ol,
                 aws_access_key_id_attr = kid, aws_secret_access_key_attr = sec,
                 client_attr = cl\<rparr>)"
proof -
  let ?args = "[(''region'', r), (''database'', d), (''workgroup'', w), (''data_catalog'', dc),
              (''output_bucket'', ob), (''output_location'', ol),
              (''aws_access_key_id'', kid), (''aws_secret_access_key'', sec)]"
  have g: "args_get ?args ''region'' = r" "args_get ?args ''database'' = d"
    "args_get ?args ''workgroup'' = w" "args_get ?args ''data_catalog'' = dc"
    "args_get ?args ''output_bucket'' = ob" "args_get ?args ''output_location'' = ol"
    "args_get ?args ''aws_access_key_id'' = kid"
    "args_get ?args ''aws_secret_access_key'' = sec"
    by (simp_all add: args_get_def)
  show ?thesis
    unfolding init_def get_args_accepts [OF assms] sum.case g by (rule refl)
qed

text \<open>
  C10. At construction a region that is not a string, \<open>None\<close> included, raises
  \<open>TypeError\<close>. With a string region, the argument check raises \<open>TypeError\<close> exactly
  when one of the seven other arguments is truthy and not a string, and it accepts the
  arguments exactly when each of them is a string or falsy, as \<open>None\<close> is. Construction
  with accepted arguments stores them and fails only if \<^verbatim>\<open>boto3.client\<close> does.
\<close>

theorem construction_checks_argument_types:
  "(\<not> is_str r \<longrightarrow>
       get_args r d w dc ob ol kid sec
         = Inl (TypeError ''`region` -> Expected String Or Bytes-Like Object'')
     \<and> init bc r d w dc ob ol kid sec
         = Inl (TypeError ''`region` -> Expected String Or Bytes-Like Object''))
   \<and> (is_str r \<longrightarrow>
       ((\<exists>msg. get_args r d w dc ob ol kid sec = Inl (TypeError msg))
          \<longleftrightarrow> (\<exists>v\<in>set [d, w, dc, ob, ol, kid, sec]. truthy v \<and> \<not> is_str v))
     \<and> ((\<exists>args. get_args r d w dc ob ol kid sec = Inr args)
          \<longleftrightarrow> (\<forall>v\<in>set [d, w, dc, ob, ol, kid, sec]. truthy v \<longrightarrow> is_str v))
     \<and> ((\<exists>v\<in>set [d, w, dc, ob, ol, kid, sec]. truthy v \<and> \<not> is_str v)
          \<longrightarrow> (\<exists>msg. init bc r d w dc ob ol kid sec = Inl (TypeError msg)))
     \<and> ((\<forall>v\<in>set [d, w, dc, ob, ol, kid, sec]. truthy v \<longrightarrow> is_str v)
          \<longrightarrow> init bc r d w dc ob ol kid sec
              = (case (if truthy kid \<and> truthy sec then bc r (Some (kid, sec)) else bc r None) of
                   Inl e \<Rightarrow> Inl e
                 | Inr cl \<Rightarrow>
                     Inr \<lparr>region_attr = r, database_attr = d, workgroup_attr = w,
                          data_catalog_attr = dc, output_bucket_attr = ob,
                          output_location_attr = ol, aws_access_key_id_attr = kid,
                          aws_secret_access_key_attr = sec, client_attr = cl\<rparr>)))"
proof (intro conjI impI)
  assume "\<not> is_str r"
  then show g: "get_args r d w dc ob ol kid sec
         = Inl (TypeError ''`region` -> Expected String Or Bytes-Like Object'')"
    by (simp add: get_args_result)
  from init_get_args_raises [OF g]
  show "init bc r d w dc ob ol kid sec
         = Inl (TypeError ''`region` -> Expected String Or Bytes-Like Object'')" .
next
  assume "is_str r"
  then show a: "(\<exists>msg. get_args r d w dc ob ol kid sec = Inl (TypeError msg))
          \<longleftrightarrow> (\<exists>v\<in>set [d, w, dc, ob, ol, kid, sec]. truthy v \<and> \<not> is_str v)"
    by (simp add: get_args_result)
  from \<open>is_str r\<close>
  show "(\<exists>args. get_args r d w dc ob ol kid sec = Inr args)
          \<longleftrightarrow> (\<forall>v\<in>set [d, w, dc, ob, ol, kid, sec]. truthy v \<longrightarrow> is_str v)"
    by (simp add: get_args_result)
  assume "\<exists>v\<in>set [d, w, dc, ob, ol, kid, sec]. truthy v \<and> \<not> is_str v"
  with a obtain msg where "get_args r d w dc ob ol kid sec = Inl (TypeError msg)" by blast
  from init_get_args_raises [OF this]
  show "\<exists>msg. init bc r d w dc ob ol kid sec = Inl (TypeError msg)" by blast
next
  assume "is_str r" and "\<forall>v\<in>set [d, w, dc, ob, ol, kid, sec]. truthy v \<longrightarrow> is_str v"
  then show "init bc r d w dc ob ol kid sec
      = (case (if truthy kid \<and> truthy sec then bc r (Some (kid, sec)) else bc r None) of
           Inl e \<Rightarrow> Inl e
         | Inr cl \<Rightarrow>
             Inr \<lparr>region_attr = r, database_attr = d, workgroup_attr = w,
                  data_catalog_attr = dc, output_bucket_attr = ob,
                  output_location_attr = ol, aws_access_key_id_attr = kid,
                  aws_secret_access_key_attr = sec, client_attr = cl\<rparr>)"
    by (rule init_accepted)
qed

theorem construction_checks_argument_types_witness:
  "\<not> is_str PNone
   \<and> get_args PNone PNone PNone PNone PNone PNone PNone PNone
       = Inl (TypeError ''`region` -> Expected String Or Bytes-Like Object'')
   \<and> init (boto3_client_example succeeded_gateway) PNone PNone PNone PNone PNone PNone PNone PNone
       = Inl (TypeError ''`region` -> Expected String Or Bytes-Like Object'')
   \<and> is_str (PStr ''us-west-1'')
   \<and> \<not> truthy PNone
   \<and> (\<exists>args. get_args (PStr ''us-west-1'') PNone PNone PNone PNone PNone PNone PNone = Inr args)
   \<and> init (boto3_client_example succeeded_gateway) (PStr ''us-west-1'') PNone PNone PNone PNone
         PNone PNone PNone
       = Inr (region_only_connector succeeded_gateway)
   \<and> \<not> truthy (PInt 0) \<and> \<not> truthy (PList []) \<and> is_str (PStr ''primary'')
   \<and> (\<exists>args. get_args (PStr ''us-west-1'') (PInt 0) (PList []) (PStr ''primary'') PNone PNone
                PNone PNone = Inr args)
   \<and> truthy (PInt 5) \<and> \<not> is_str (PInt 5)
   \<and> (\<exists>msg. get_args (PStr ''us-west-1'') (PInt 5) PNone PNone PNone PNone PNone PNone
         = Inl (TypeError msg))
   \<and> (\<exists>msg. init (boto3_client_example succeeded_gateway) (PStr ''us-west-1'') (PInt 5) PNone
                PNone PNone PNone PNone PNone = Inl (TypeError msg))"
proof -
  let ?bc = "boto3_client_example succeeded_gateway"
  have n: "\<not> is_str PNone" by simp
  have s: "is_str (PStr ''us-west-1'')" by simp
  have a: "\<forall>v\<in>set [PNone, PNone, PNone, PNone, PNone, PNone, PNone]. truthy v \<longrightarrow> is_str v"
    by simp
  have b: "\<forall>v\<in>set [PInt 0, PList [], PStr ''primary'', PNone, PNone, PNone, PNone].
         truthy v \<longrightarrow> is_str v"
    by simp
  have c: "\<exists>v\<in>set [PInt 5, PNone, PNone, PNone, PNone, PNone, PNone]. truthy v \<and> \<not> is_str v"
    by simp
  note t1 = construction_checks_argument_types
    [of PNone PNone PNone PNone PNone PNone PNone PNone ?bc]
  note t2 = construction_checks_argument_types
    [of "PStr ''us-west-1''" PNone PNone PNone PNone PNone PNone PNone ?bc]
  note t3 = construction_checks_argument_types
    [of "PStr ''us-west-1''" "PInt 0" "PList []" "PStr ''primary''" PNone PNone PNone PNone ?bc]
  note t4 = construction_checks_argument_types
    [of "PStr ''us-west-1''" "PInt 5" PNone PNone PNone PNone PNone PNone ?bc]
  from t1 n have r1: "get_args PNone PNone PNone PNone PNone PNone PNone PNone
       = Inl (TypeError ''`region` -> Expected String Or Bytes-Like Object'')
     \<and> init ?bc PNone PNone PNone PNone PNone PNone PNone PNone
       = Inl (TypeError ''`region` -> Expected String Or Bytes-Like Object'')"
    by blast
  from t2 s a have r2:
    "\<exists>args. get_args (PStr ''us-west-1'') PNone PNone PNone PNone PNone PNone PNone = Inr args"
    by blast
  from t2 s a have r2':
    "init ?bc (PStr ''us-west-1'') PNone PNone PNone PNone PNone PNone PNone
       = Inr (region_only_connector succeeded_gateway)"
    by (simp add: boto3_client_example_def region_only_connector_def)
  from t3 s b have r3:
    "\<exists>args. get_args (PStr ''us-west-1'') (PInt 0) (PList []) (PStr ''primary'') PNone PNone
                PNone PNone = Inr args"
    by blast
  from t4 s c have r4:
    "(\<exists>msg. get_args (PStr ''us-west-1'') (PInt 5) PNone PNone PNone PNone PNone PNone
         = Inl (TypeError msg))
     \<and> (\<exists>msg. init ?bc (PStr ''us-west-1'') (PInt 5) PNone
                PNone PNone PNone PNone PNone = Inl (TypeError msg))"
    by blast
  from n s r1 r2 r2' r3 r4 show ?thesis by simp
qed

lemma values_loop_dicts:
  "list_all is_dict cells \<Longrightarrow>
     \<exists>vs. values_loop cells = Inr vs \<and> length vs = length cells
        \<and> (\<forall>i<length cells. \<forall>kvs. cells ! i = PDict kvs \<longrightarrow>
              vs ! i = (case map_of kvs ''VarCharValue'' of None \<Rightarrow> PNone | Some v \<Rightarrow> v))"
proof (induction cells)
  case Nil
  then show ?case by simp
next
  case (Cons c cs)
  from Cons.prems obtain kvs0 where c: "c = PDict kvs0" by (cases c) simp_all
  from Cons.prems have "list_all is_dict cs" by simp
  from Cons.IH [OF this] obtain vs where
    vs: "values_loop cs = Inr vs" "length vs = length cs"
      "\<forall>i<length cs. \<forall>kvs. cs ! i = PDict kvs \<longrightarrow>
          vs ! i = (case map_of kvs ''VarCharValue'' of None \<Rightarrow> PNone | Some v \<Rightarrow> v)"
    by blast
  let ?v0 = "case map_of kvs0 ''VarCharValue'' of None \<Rightarrow> PNone | Some v \<Rightarrow> v"
  have run: "values_loop (c # cs) = Inr (?v0 # vs)"
    by (simp add: c vs(1))
  have "(?v0 # vs) ! i = (case map_of kvs ''VarCharValue'' of None \<Rightarrow> PNone | Some v \<Rightarrow> v)"
    if "i < length (c # cs)" "(c # cs) ! i = PDict kvs" for i kvs
  proof (cases i)
    case 0
    with that(2) c show ?thesis by simp
  next
    case (Suc i')
    with that vs(3) show ?thesis by simp
  qed
  with run vs(2) show ?case by simp
qed

lemma process_loop_append:
  "process_loop (xs @ ys) acc
     = (case process_loop xs acc of Inl e \<Rightarrow> Inl e | Inr acc' \<Rightarrow> process_loop ys acc')"
  by (induction xs arbitrary: acc) (simp_all split: sum.splits)

text \<open>
  C5. A row whose \<open>Data\<close> lists more than one cell dictionary is kept, at its place in
  the table, with one value per cell: the value of a cell without a \<open>VarCharValue\<close>
  entry is \<open>None\<close>, which is not the empty string, and the value of a cell with the entry
  is the entry, the empty string included.
\<close>

theorem missing_value_flattens_to_null:
  assumes "map_of row ''Data'' = Some (PList cells)"
    and "list_all is_dict cells"
    and "1 < length cells"
  shows "\<exists>values.
           process_data (PList (map raw_row before @ [PDict row] @ map raw_row after))
             = Inr (map (map cell) (filter (\<lambda>r. 1 < length r) before) @ [values]
                      @ map (map cell) (filter (\<lambda>r. 1 < length r) after))
         \<and> length values = length cells
         \<and> (\<forall>j<length cells. \<forall>kvs. cells ! j = PDict kvs \<longrightarrow>
               (map_of kvs ''VarCharValue'' = None
                  \<longrightarrow> values ! j = PNone \<and> values ! j \<noteq> PStr '''')
             \<and> (\<forall>v. map_of kvs ''VarCharValue'' = Some v \<longrightarrow> values ! j = v))"
proof -
  from values_loop_dicts [OF assms(2)] obtain vs where
    vs: "values_loop cells = Inr vs" "length vs = length cells"
      "\<forall>i<length cells. \<forall>kvs. cells ! i = PDict kvs \<longrightarrow>
          vs ! i = (case map_of kvs ''VarCharValue'' of None \<Rightarrow> PNone | Some v \<Rightarrow> v)"
    by blast
  have one: "process_loop (PDict row # ys) acc = process_loop ys (acc @ [vs])" for ys acc
    using assms(1) assms(3) vs(1) vs(2) by (simp add: values_of_def)
  have "process_data (PList (map raw_row before @ [PDict row] @ map raw_row after))
      = Inr (map (map cell) (filter (\<lambda>r. 1 < length r) before) @ [vs]
               @ map (map cell) (filter (\<lambda>r. 1 < length r) after))"
    by (simp add: process_data_def process_loop_append process_loop_raw_rows one
          del: process_loop.simps)
  moreover have "(map_of kvs ''VarCharValue'' = None \<longrightarrow> vs ! j = PNone \<and> vs ! j \<noteq> PStr '''')
      \<and> (\<forall>v. map_of kvs ''VarCharValue'' = Some v \<longrightarrow> vs ! j = v)"
    if "j < length cells" "cells ! j = PDict kvs" for j kvs
    using vs(3) that by auto
  ultimately show ?thesis using vs(2) by blast
qed

theorem missing_value_flattens_to_null_witness:
  "map_of [(''Data'', PList [PDict [], PDict [(''VarCharValue'', PStr '''')]])] ''Data''
     = Some (PList [PDict [], PDict [(''VarCharValue'', PStr '''')]])
   \<and> list_all is_dict [PDict [], PDict [(''VarCharValue'', PStr '''')]]
   \<and> 1 < length [PDict [], PDict [(''VarCharValue'', PStr '''')]]
   \<and> map_of [] ''VarCharValue'' = (None :: pyval option)
   \<and> map_of [(''VarCharValue'', PStr '''')] ''VarCharValue'' = Some (PStr '''')
   \<and> process_data
        (PList [PDict [(''Data'', PList [PDict [], PDict [(''VarCharValue'', PStr '''')]])]])
       = Inr [[PNone, PStr '''']]
   \<and> PNone \<noteq> PStr ''''"
proof -
  let ?cells = "[PDict [], PDict [(''VarCharValue'', PStr '''')]]"
  let ?row = "[(''Data'', PList ?cells)]"
  have h1: "map_of ?row ''Data'' = Some (PList ?cells)" by simp
  have h2: "list_all is_dict ?cells" by simp
  have h3: "1 < length ?cells" by simp
  from missing_value_flattens_to_null [OF h1 h2 h3, of "[]" "[]"]
  obtain vals where
    v: "process_data (PList [PDict ?row]) = Inr [vals]" "length vals = 2"
      "\<forall>j<2. \<forall>kvs. ?cells ! j = PDict kvs \<longrightarrow>
               (map_of kvs ''VarCharValue'' = None
                  \<longrightarrow> vals ! j = PNone \<and> vals ! j \<noteq> PStr '''')
             \<and> (\<forall>v. map_of kvs ''VarCharValue'' = Some v \<longrightarrow> vals ! j = v)"
    by auto
  from v(3) have "vals ! 0 = PNone" by auto
  moreover have "vals ! 1 = PStr ''''"
    using v(3) [rule_format, of 1 "[(''VarCharValue'', PStr '''')]"] by simp
  ultimately have "vals = [PNone, PStr '''']"
    using v(2) by (auto simp: numeral_2_eq_2 length_Suc_conv)
  with v(1) show ?thesis by simp
qed

text \<open>
  C7. Construction from a region and a database alone succeeds, and reading the property
  \<open>output_bucket\<close> or \<open>output_location\<close> of that connector raises \<open>ValueError\<close>. But
  \<open>status_query\<close> reads the attributes, not the properties: on that connector, with a
  client that checks the types of its parameters, it raises nothing and sends the output
  location \<open>s3://None/None\<close>. Without a database the property \<open>database\<close> raises
  \<open>ValueError\<close> too, and \<open>status_query\<close> sends the database \<open>None\<close>: what it raises
  then is the client's \<open>ParamValidationError\<close>.
\<close>

theorem status_query_skips_configuration_check:
  "init (boto3_client_example validating_gateway) (PStr ''us-west-1'') (PStr ''testing'')
       PNone PNone PNone PNone PNone PNone
     = Inr (database_only_connector validating_gateway)
   \<and> output_bucket (database_only_connector validating_gateway)
     = Inl (ValueError ''Output Bucket Not Provided!'')
   \<and> output_location (database_only_connector validating_gateway)
     = Inl (ValueError ''Output Location Not Provided!'')
   \<and> status_query str_of_example (database_only_connector validating_gateway)
       (PStr ''SELECT 1'')
     = Some (Inr [[PStr ''1'', PStr ''2'']],
         [StartQueryExecution (PStr ''SELECT 1'') (PDict [(''Database'', PStr ''testing'')])
            (PDict [(''OutputLocation'', PStr ''s3://None/None'')]),
          GetQueryExecution (PStr ''h1''), GetQueryResults (PStr ''h1'')])
   \<and> database (region_only_connector validating_gateway)
     = Inl (ValueError ''Database Name Not Provided!'')
   \<and> status_query str_of_example (region_only_connector validating_gateway)
       (PStr ''SELECT 1'')
     = Some (Inl (Exception ''Error While Running Query: ''
                    (ParamValidationError ''Parameter validation failed'')),
         [StartQueryExecution (PStr ''SELECT 1'') (PDict [(''Database'', PNone)])
            (PDict [(''OutputLocation'', PStr ''s3://None/None'')])])"
proof -
  let ?c = "database_only_connector validating_gateway"
  let ?d = "region_only_connector validating_gateway"
  let ?q = "PStr ''SELECT 1''"
  let ?h = "PStr ''h1''"
  have i: "init (boto3_client_example validating_gateway) (PStr ''us-west-1'')
       (PStr ''testing'') PNone PNone PNone PNone PNone PNone = Inr ?c"
    by (simp add: init_accepted boto3_client_example_def database_only_connector_def)
  have g: "output_bucket ?c = Inl (ValueError ''Output Bucket Not Provided!'')"
    "output_location ?c = Inl (ValueError ''Output Location Not Provided!'')"
    "database ?d = Inl (ValueError ''Database Name Not Provided!'')"
    by (simp_all add: database_def output_bucket_def output_location_def
          database_only_connector_def region_only_connector_def)
  have h1: "execution_id str_of_example ?c ?q = Inr ?h"
    by (simp add: example_defs validating_gateway_def has_string_def
          database_only_connector_def)
  have h2: "\<forall>k<0. pending (client_attr ?c) ?h k"
    by simp
  have h3: "observed (client_attr ?c) ?h 0 = Inr (PStr ''SUCCEEDED'')"
    by (simp add: example_defs validating_gateway_def database_only_connector_def)
  have h4: "is_terminal (PStr ''SUCCEEDED'')"
    by (simp add: is_terminal_def)
  have h5: "fetched (client_attr ?c) ?h = Inr (PList (map raw_row [[Some ''1'', Some ''2'']]))"
    by (simp add: example_defs validating_gateway_def database_only_connector_def)
  from status_query_terminal_rows [OF h1 h2 h3 h4 h5]
  have r1: "status_query str_of_example ?c ?q
     = Some (Inr [[PStr ''1'', PStr ''2'']],
         [StartQueryExecution ?q (PDict [(''Database'', PStr ''testing'')])
            (PDict [(''OutputLocation'', PStr ''s3://None/None'')]),
          GetQueryExecution ?h, GetQueryResults ?h])"
    by (simp add: polling_events_simps cell_def start_event_def query_execution_context_def
          result_configuration_def database_only_connector_def)
  have e: "execution_id str_of_example ?d ?q
      = Inl (ParamValidationError ''Parameter validation failed'')"
    by (simp add: example_defs validating_gateway_def has_string_def
          region_only_connector_def)
  from status_query_Some [OF status_query_try_no_handle [OF e]]
  have r2: "status_query str_of_example ?d ?q
     = Some (Inl (Exception ''Error While Running Query: ''
                    (ParamValidationError ''Parameter validation failed'')),
         [StartQueryExecution ?q (PDict [(''Database'', PNone)])
            (PDict [(''OutputLocation'', PStr ''s3://None/None'')])])"
    by (simp add: start_event_def query_execution_context_def result_configuration_def
          region_only_connector_def)
  from i g r1 r2 show ?thesis by simp
qed

end
